theory Spec2Isabelle
  imports Complex_Main "HOL-Library.Log_Nat"
begin

section \<open>The daily spending planner: the allowance and carryover ledger\<close>

text \<open>
  The ledger of the planner is computed in \<^verbatim>\<open>src/pages/home.tsx\<close> by two memoised
  computations, \<^verbatim>\<open>totalSavings\<close> and \<^verbatim>\<open>calculations\<close>. Both are embedded here as
  HOL functions of the planner state and of the clock reading.

  Conventions of the embedding.
  \<^item> A JavaScript number is a rational here, and the ledger is embedded twice.
    \<open>calculations\<close> computes in exact arithmetic: there is no rounding. \<open>calculationsR r\<close> is
    the same computation with the function \<open>r\<close> applied to the result of every parse,
    addition, subtraction, multiplication and division; with \<open>r = binary64\<close>, the rounding
    of IEEE 754 double precision, it computes what the source computes. Neither has
    infinite values. \<^verbatim>\<open>NaN\<close> exists only as the result of \<^verbatim>\<open>parseFloat\<close>, where it is \<open>None\<close>; the
    source removes it at once with \<^verbatim>\<open>|| 0\<close>. A division whose divisor is zero would leave
    the rationals, so it is an error value of the model.
  \<^item> A \<^verbatim>\<open>Date\<close> is either invalid or a local wall-clock instant: a calendar day, counted in
    days, and the milliseconds that the local clock shows past 00:00 on that day. The order
    of instants is the order of these pairs.
  \<^item> The local calendar depends on the time zone, which is part of the parameter \<open>lib\<close>:
    \<open>skippedDay lib d\<close> says that the zone has no local day \<open>d\<close> (in Pacific/Apia, 30 December
    2011), and \<open>dayStart lib d\<close> is what the local clock shows at the first instant of day
    \<open>d\<close>: 0, or the end of the gap where a clock change removes local midnight.
  \<^item> The functions that convert between text and values (\<^verbatim>\<open>parseFloat\<close>, \<^verbatim>\<open>parseISO\<close>,
    \<^verbatim>\<open>format\<close>) belong to the JavaScript runtime and to the date-fns library, not to the
    planner. They are fields of \<open>lib\<close> too, so every theorem holds whatever they compute; a
    concrete instance, \<open>jslib\<close>, is given further down for the evaluation of concrete
    scenarios.
  \<^item> An exception of the source is the \<open>Inl\<close> branch of a sum type.
\<close>

subsection \<open>Numbers, dates and errors\<close>

type_synonym number = rat

datatype error = RangeError | NotFinite

datatype jsdate = InvalidDate | At (dayOf: int) (msOf: nat)

record lib =
  parseFloat :: "string \<Rightarrow> number option"
  parseISO :: "string \<Rightarrow> jsdate"
  formatLocal :: "int \<Rightarrow> nat \<Rightarrow> string \<Rightarrow> string"
  skippedDay :: "int \<Rightarrow> bool"
  dayStart :: "int \<Rightarrow> nat"

text \<open>\<^verbatim>\<open>x || 0\<close> on a number: \<^verbatim>\<open>NaN\<close> and zero are falsy and give \<open>0\<close>.\<close>

definition orZero :: "number option \<Rightarrow> number" where
  "orZero x = (case x of None \<Rightarrow> 0 | Some v \<Rightarrow> if v = 0 then 0 else v)"

text \<open>\<^verbatim>\<open>a / b\<close>: with a zero divisor JavaScript yields \<^verbatim>\<open>NaN\<close> or an infinity.\<close>

definition divide_num :: "number \<Rightarrow> number \<Rightarrow> error + number" where
  "divide_num a b = (if b = 0 then Inl NotFinite else Inr (a / b))"

fun isValid :: "jsdate \<Rightarrow> bool" where
  "isValid InvalidDate = False"
| "isValid (At d t) = True"

text \<open>
  \<^verbatim>\<open>a > b\<close> and \<^verbatim>\<open>isBefore(a, b)\<close> compare time values; a comparison with the time value of
  an invalid date is false.
\<close>

fun date_gt :: "jsdate \<Rightarrow> jsdate \<Rightarrow> bool" where
  "date_gt (At d1 t1) (At d2 t2) = (d2 < d1 \<or> (d1 = d2 \<and> t2 < t1))"
| "date_gt _ _ = False"

fun isBefore :: "jsdate \<Rightarrow> jsdate \<Rightarrow> bool" where
  "isBefore (At d1 t1) (At d2 t2) = (d1 < d2 \<or> (d1 = d2 \<and> t1 < t2))"
| "isBefore _ _ = False"

text \<open>
  \<^verbatim>\<open>date.setHours(0, 0, 0, 0)\<close>: the first instant of the same local day, which is local
  midnight unless the zone skips it. The instant of a \<^verbatim>\<open>Date\<close> is never before the start of
  its day, and the minimum says as much for any pair of a day and a time.
\<close>

fun setHours0 :: "lib \<Rightarrow> jsdate \<Rightarrow> jsdate" where
  "setHours0 lib (At d t) = At d (min t (dayStart lib d))"
| "setHours0 lib InvalidDate = InvalidDate"

text \<open>
  \<^verbatim>\<open>date.setDate(...)\<close> moves a date to another local day and keeps what the clock shows.
  Where the clock of that day never shows this time, because it lies in the gap at the
  start of the day, JavaScript moves the time forward by the length of the gap.
\<close>

fun setDate :: "lib \<Rightarrow> jsdate \<Rightarrow> int \<Rightarrow> jsdate" where
  "setDate lib (At d t) d' =
     At d' (if t < dayStart lib d' then t + dayStart lib d' else t)"
| "setDate lib InvalidDate d' = InvalidDate"

text \<open>
  \<^verbatim>\<open>isToday(date)\<close> is \<^verbatim>\<open>isSameDay(date, Date.now())\<close>; the clock reading is the argument
  \<open>now\<close> here.
\<close>

fun isSameDay :: "jsdate \<Rightarrow> jsdate \<Rightarrow> bool" where
  "isSameDay (At d1 t1) (At d2 t2) = (d1 = d2)"
| "isSameDay _ _ = False"

definition isToday :: "jsdate \<Rightarrow> jsdate \<Rightarrow> bool" where
  "isToday now date = isSameDay date now"

text \<open>
  \<^verbatim>\<open>differenceInDays(later, earlier)\<close> of date-fns counts full days: the difference in
  calendar days, less one when the last day is not full. The difference in calendar days
  is the difference of the day numbers (date-fns rounds the distance of the two starts of
  day to whole days), and the later date is moved to the day of the earlier one with
  \<^verbatim>\<open>setDate\<close> before the two are compared. \<open>compareLocalAsc\<close> compares the local fields of two
  valid dates. The planner calls both on valid dates only (an invalid date gives \<^verbatim>\<open>NaN\<close>,
  which no equation here describes).
\<close>

fun compareLocalAsc :: "jsdate \<Rightarrow> jsdate \<Rightarrow> int" where
  "compareLocalAsc (At d1 t1) (At d2 t2) =
     (if d1 < d2 \<or> (d1 = d2 \<and> t1 < t2) then - 1
      else if d2 < d1 \<or> (d1 = d2 \<and> t2 < t1) then 1 else 0)"

fun differenceInDays :: "lib \<Rightarrow> jsdate \<Rightarrow> jsdate \<Rightarrow> int" where
  "differenceInDays lib (At ld lt) (At ed et) =
     (let sign = compareLocalAsc (At ld lt) (At ed et);
          difference = \<bar>ld - ed\<bar>;
          shifted = setDate lib (At ld lt) (ld - sign * difference);
          isLastDayNotFull = (if compareLocalAsc shifted (At ed et) = - sign then 1 else 0)
      in sign * (difference - isLastDayNotFull))"

text \<open>
  \<^verbatim>\<open>eachDayOfInterval({start, end})\<close> throws a \<^verbatim>\<open>RangeError\<close> when a date is invalid or \<open>start\<close>
  is after \<open>end\<close>. Otherwise it sets a date to the start of the day of \<open>start\<close> and, as long
  as that date is not after \<open>end\<close>, emits it and moves it to the start of the next local
  day, with \<^verbatim>\<open>setDate\<close> and \<^verbatim>\<open>setHours\<close>. A day that the zone skips is passed over, since
  \<^verbatim>\<open>setDate\<close> lands on the day after it. So the dates emitted are the start of the day of
  \<open>start\<close> and then the start of every later local day that exists and does not begin after
  \<open>end\<close>.
\<close>

fun eachDayOfInterval :: "lib \<Rightarrow> jsdate \<Rightarrow> jsdate \<Rightarrow> error + jsdate list" where
  "eachDayOfInterval lib (At sd st) (At ed et) =
     (if date_gt (At sd st) (At ed et) then Inl RangeError
      else Inr (setHours0 lib (At sd st) #
                filter (\<lambda>c. \<not> date_gt c (At ed et))
                  (map (\<lambda>d. At d (dayStart lib d))
                     (filter (\<lambda>d. \<not> skippedDay lib d) [sd + 1..ed]))))"
| "eachDayOfInterval lib _ _ = Inl RangeError"

text \<open>\<^verbatim>\<open>format(date, pattern)\<close> throws a \<^verbatim>\<open>RangeError\<close> on an invalid date.\<close>

fun format :: "lib \<Rightarrow> jsdate \<Rightarrow> string \<Rightarrow> error + string" where
  "format lib InvalidDate pattern = Inl RangeError"
| "format lib (At d t) pattern = Inr (formatLocal lib d t pattern)"

text \<open>Sequencing of steps that may throw: the first error ends the computation.\<close>

definition bindE :: "error + 'a \<Rightarrow> ('a \<Rightarrow> error + 'b) \<Rightarrow> error + 'b" where
  "bindE m f = (case m of Inl e \<Rightarrow> Inl e | Inr x \<Rightarrow> f x)"

subsection \<open>The planner state and the ledger\<close>

record SavingsGoal =
  goal_id :: string
  goal_name :: string
  amount :: string
  category :: string

record PlannerState =
  totalAmount :: string
  startDate :: string
  endDate :: string
  expenses :: "string \<rightharpoonup> string"
  savingsGoals :: "SavingsGoal list"

record DayEntry =
  date :: jsdate
  dateKey :: string
  formattedDate :: string
  dayName :: string
  allowance :: number
  spent :: number
  remaining :: number

text \<open>
  The object that \<^verbatim>\<open>calculations\<close> returns. The branch of an invalid range returns an
  object without the property \<^verbatim>\<open>spentUpToToday\<close>, so that field is optional.
\<close>

record Ledger =
  daysCount :: int
  available :: number
  dailyAllowance :: number
  days :: "DayEntry list"
  isValidRange :: bool
  totalSpent :: number
  totalRemaining :: number
  spentPercentage :: number
  spentUpToToday :: "number option"

subsection \<open>totalSavings and calculations\<close>

text \<open>
  \<^verbatim>\<open>state.savingsGoals.reduce((sum, goal) => sum + (parseFloat(goal.amount) || 0), 0)\<close>
\<close>

definition totalSavings :: "lib \<Rightarrow> SavingsGoal list \<Rightarrow> number" where
  "totalSavings lib goals =
     foldl (\<lambda>sum goal. sum + orZero (parseFloat lib (amount goal))) 0 goals"

text \<open>
  The body of \<^verbatim>\<open>daysArray.forEach\<close>: from the carryover of the previous day it builds the
  entry of this day and the carryover for the next one.
\<close>

definition dayStep ::
  "lib \<Rightarrow> (string \<rightharpoonup> string) \<Rightarrow> number \<Rightarrow> number \<Rightarrow> jsdate \<Rightarrow> error + (number \<times> DayEntry)" where
  "dayStep lib exps baseDaily carryover dt =
     bindE (format lib dt ''yyyy-MM-dd'') (\<lambda>key.
       let expenseInput = exps key;
           hasInput = (expenseInput \<noteq> None \<and> expenseInput \<noteq> Some '''');
           availableForDay = baseDaily + carryover;
           spentV = (if hasInput then orZero (parseFloat lib (the expenseInput))
                     else availableForDay);
           remainingV = availableForDay - spentV
       in bindE (format lib dt ''MMMM d, yyyy'') (\<lambda>fd.
          bindE (format lib dt ''EEEE'') (\<lambda>dn.
            Inr (remainingV,
                 \<lparr>date = dt, dateKey = key, formattedDate = fd, dayName = dn,
                  allowance = availableForDay, spent = spentV, remaining = remainingV\<rparr>))))"

text \<open>
  The loop itself, with its two mutable variables as the state: \<^verbatim>\<open>carryover\<close> and the array
  \<^verbatim>\<open>days\<close>, to which every iteration pushes one entry.
\<close>

fun forEachDay ::
  "lib \<Rightarrow> (string \<rightharpoonup> string) \<Rightarrow> number \<Rightarrow> jsdate list \<Rightarrow> number \<times> DayEntry list
     \<Rightarrow> error + (number \<times> DayEntry list)" where
  "forEachDay lib exps baseDaily [] s = Inr s"
| "forEachDay lib exps baseDaily (dt # rest) (carryover, acc) =
     bindE (dayStep lib exps baseDaily carryover dt) (\<lambda>(carryover', entry).
       forEachDay lib exps baseDaily rest (carryover', acc @ [entry]))"

text \<open>
  \<^verbatim>\<open>days.reduce(...)\<close> for the spending up to and including today; \<open>today\<close> is the clock
  reading set to the start of its day.
\<close>

definition sumUpToToday :: "lib \<Rightarrow> jsdate \<Rightarrow> DayEntry list \<Rightarrow> number" where
  "sumUpToToday lib now ds =
     (let today = setHours0 lib now
      in foldl (\<lambda>sum day.
           let dayDate = setHours0 lib (date day)
           in if isBefore dayDate today \<or> isToday now dayDate then sum + spent day else sum)
         0 ds)"

text \<open>
  \<^verbatim>\<open>calculations\<close>, lines 125 to 206 of \<^verbatim>\<open>home.tsx\<close>. The fields of the result carry the names
  of the source, so its local constants are written \<open>avail\<close> (\<^verbatim>\<open>available\<close>), \<open>startD\<close> and
  \<open>endD\<close> (\<^verbatim>\<open>startDate\<close>, \<^verbatim>\<open>endDate\<close>), \<open>count\<close> (\<^verbatim>\<open>daysCount\<close>), \<open>ds\<close> (\<^verbatim>\<open>days\<close>), \<open>spentSum\<close>
  (\<^verbatim>\<open>totalSpent\<close>), \<open>remainingSum\<close> (\<^verbatim>\<open>totalRemaining\<close>) and \<open>percentage\<close>
  (\<^verbatim>\<open>spentPercentage\<close>). The clock reading \<^verbatim>\<open>new Date()\<close> is the argument \<open>now\<close>. The two guarded
  divisions are the only ones, and the only steps that can throw are \<^verbatim>\<open>eachDayOfInterval\<close>
  and \<^verbatim>\<open>format\<close>.
\<close>

definition calculations :: "lib \<Rightarrow> PlannerState \<Rightarrow> jsdate \<Rightarrow> error + Ledger" where
  "calculations lib state now =
     (let total = orZero (parseFloat lib (totalAmount state));
          avail = max 0 (total - totalSavings lib (savingsGoals state));
          startD = parseISO lib (startDate state);
          endD = parseISO lib (endDate state)
      in if \<not> isValid startD \<or> \<not> isValid endD \<or> date_gt startD endD then
           Inr \<lparr>daysCount = 0, available = avail, dailyAllowance = 0, days = [],
                isValidRange = False, totalSpent = 0, totalRemaining = avail,
                spentPercentage = 0, spentUpToToday = None\<rparr>
         else
           let count = differenceInDays lib endD startD + 1
           in bindE (if 0 < count then divide_num avail (of_int count) else Inr 0)
                (\<lambda>baseDaily.
              bindE (eachDayOfInterval lib startD endD) (\<lambda>daysArray.
              bindE (forEachDay lib (expenses state) baseDaily daysArray (0, []))
                (\<lambda>(carryover, ds).
                let spentSum = foldl (\<lambda>sum day. sum + spent day) 0 ds;
                    remainingSum = avail - spentSum
                in bindE (if 0 < avail
                          then bindE (divide_num spentSum avail) (\<lambda>q. Inr (min 100 (q * 100)))
                          else Inr 0)
                    (\<lambda>percentage.
                   Inr \<lparr>daysCount = count, available = avail, dailyAllowance = baseDaily,
                        days = ds, isValidRange = True, totalSpent = spentSum,
                        totalRemaining = remainingSum, spentPercentage = percentage,
                        spentUpToToday = Some (sumUpToToday lib now ds)\<rparr>)))))"

subsection \<open>The same computation with rounded arithmetic\<close>

text \<open>
  The source computes in IEEE 754 double precision: every number read by \<^verbatim>\<open>parseFloat\<close> and
  the result of every \<^verbatim>\<open>+\<close>, \<^verbatim>\<open>-\<close>, \<^verbatim>\<open>*\<close> and \<^verbatim>\<open>/\<close> is rounded to the nearest double.
  \<open>totalSavingsR\<close>, \<open>dayStepR\<close>, \<open>forEachDayR\<close>, \<open>sumUpToTodayR\<close> and \<open>calculationsR\<close> repeat the
  definitions above with a rounding function \<open>r\<close> at each of these places and nowhere
  else (\<^verbatim>\<open>Math.max\<close>, \<^verbatim>\<open>Math.min\<close> and the comparisons are exact, and so is the count of
  days). With the identity for \<open>r\<close> they are the definitions above (lemma
  \<open>calculationsR_exact\<close>).
\<close>

definition totalSavingsR :: "(number \<Rightarrow> number) \<Rightarrow> lib \<Rightarrow> SavingsGoal list \<Rightarrow> number" where
  "totalSavingsR r lib goals =
     foldl (\<lambda>sum goal. r (sum + orZero (map_option r (parseFloat lib (amount goal))))) 0 goals"

definition dayStepR ::
  "(number \<Rightarrow> number) \<Rightarrow> lib \<Rightarrow> (string \<rightharpoonup> string) \<Rightarrow> number \<Rightarrow> number \<Rightarrow> jsdate
     \<Rightarrow> error + (number \<times> DayEntry)" where
  "dayStepR r lib exps baseDaily carryover dt =
     bindE (format lib dt ''yyyy-MM-dd'') (\<lambda>key.
       let expenseInput = exps key;
           hasInput = (expenseInput \<noteq> None \<and> expenseInput \<noteq> Some '''');
           availableForDay = r (baseDaily + carryover);
           spentV = (if hasInput then orZero (map_option r (parseFloat lib (the expenseInput)))
                     else availableForDay);
           remainingV = r (availableForDay - spentV)
       in bindE (format lib dt ''MMMM d, yyyy'') (\<lambda>fd.
          bindE (format lib dt ''EEEE'') (\<lambda>dn.
            Inr (remainingV,
                 \<lparr>date = dt, dateKey = key, formattedDate = fd, dayName = dn,
                  allowance = availableForDay, spent = spentV, remaining = remainingV\<rparr>))))"

fun forEachDayR ::
  "(number \<Rightarrow> number) \<Rightarrow> lib \<Rightarrow> (string \<rightharpoonup> string) \<Rightarrow> number \<Rightarrow> jsdate list
     \<Rightarrow> number \<times> DayEntry list \<Rightarrow> error + (number \<times> DayEntry list)" where
  "forEachDayR r lib exps baseDaily [] s = Inr s"
| "forEachDayR r lib exps baseDaily (dt # rest) (carryover, acc) =
     bindE (dayStepR r lib exps baseDaily carryover dt) (\<lambda>(carryover', entry).
       forEachDayR r lib exps baseDaily rest (carryover', acc @ [entry]))"

definition sumUpToTodayR ::
  "(number \<Rightarrow> number) \<Rightarrow> lib \<Rightarrow> jsdate \<Rightarrow> DayEntry list \<Rightarrow> number" where
  "sumUpToTodayR r lib now ds =
     (let today = setHours0 lib now
      in foldl (\<lambda>sum day.
           let dayDate = setHours0 lib (date day)
           in if isBefore dayDate today \<or> isToday now dayDate then r (sum + spent day)
              else sum)
         0 ds)"

definition calculationsR ::
  "(number \<Rightarrow> number) \<Rightarrow> lib \<Rightarrow> PlannerState \<Rightarrow> jsdate \<Rightarrow> error + Ledger" where
  "calculationsR r lib state now =
     (let total = orZero (map_option r (parseFloat lib (totalAmount state)));
          avail = max 0 (r (total - totalSavingsR r lib (savingsGoals state)));
          startD = parseISO lib (startDate state);
          endD = parseISO lib (endDate state)
      in if \<not> isValid startD \<or> \<not> isValid endD \<or> date_gt startD endD then
           Inr \<lparr>daysCount = 0, available = avail, dailyAllowance = 0, days = [],
                isValidRange = False, totalSpent = 0, totalRemaining = avail,
                spentPercentage = 0, spentUpToToday = None\<rparr>
         else
           let count = differenceInDays lib endD startD + 1
           in bindE (if 0 < count then bindE (divide_num avail (of_int count)) (\<lambda>q. Inr (r q))
                     else Inr 0)
                (\<lambda>baseDaily.
              bindE (eachDayOfInterval lib startD endD) (\<lambda>daysArray.
              bindE (forEachDayR r lib (expenses state) baseDaily daysArray (0, []))
                (\<lambda>(carryover, ds).
                let spentSum = foldl (\<lambda>sum day. r (sum + spent day)) 0 ds;
                    remainingSum = r (avail - spentSum)
                in bindE (if 0 < avail
                          then bindE (divide_num spentSum avail)
                                 (\<lambda>q. Inr (min 100 (r (r q * 100))))
                          else Inr 0)
                    (\<lambda>percentage.
                   Inr \<lparr>daysCount = count, available = avail, dailyAllowance = baseDaily,
                        days = ds, isValidRange = True, totalSpent = spentSum,
                        totalRemaining = remainingSum, spentPercentage = percentage,
                        spentUpToToday = Some (sumUpToTodayR r lib now ds)\<rparr>)))))"

text \<open>
  \<open>binary64\<close> rounds to the nearest double, ties to the even significand. For \<open>x \<noteq> 0\<close>,
  \<open>exponent2 x\<close> is the integer \<open>e\<close> with \<open>pow2 e \<le> \<bar>x\<bar> < pow2 (e + 1)\<close>; the doubles near \<open>x\<close> are
  the multiples of \<open>pow2 (e - 52)\<close>, and the multiples of \<open>pow2 (- 1074)\<close> below the normal
  range. Magnitudes of \<open>pow2 1024\<close> and more, which a double turns into an infinity, are
  outside the model.
\<close>

definition pow2 :: "int \<Rightarrow> number" where
  "pow2 k = (if 0 \<le> k then 2 ^ nat k else 1 / 2 ^ nat (- k))"

definition exponent2 :: "number \<Rightarrow> int" where
  "exponent2 x =
     (if 1 \<le> \<bar>x\<bar> then bitlen \<lfloor>\<bar>x\<bar>\<rfloor> - 1 else - bitlen (\<lceil>1 / \<bar>x\<bar>\<rceil> - 1))"

definition binary64 :: "number \<Rightarrow> number" where
  "binary64 x =
     (if x = 0 then 0
      else let ulp = pow2 (max (exponent2 x) (- 1022) - 52);
               q = \<bar>x\<bar> / ulp;
               n = \<lfloor>q\<rfloor>;
               rest = q - of_int n;
               m = (if rest < 1 / 2 then n
                    else if 1 / 2 < rest then n + 1
                    else if even n then n else n + 1)
           in (if x < 0 then - (of_int m * ulp) else of_int m * ulp))"

subsection \<open>A concrete library for closed evaluation\<close>

text \<open>
  The instance \<open>jslib\<close> fixes the three conversions on the texts the planner's own inputs
  produce, so that scenarios can be evaluated. Its time zone skips no day and no
  midnight. \<open>apiaLib\<close> differs from it in one respect: like Pacific/Apia, it has no 30
  December 2011, which is day 15338.
  \<^item> \<open>parseFloat_dec\<close> follows \<^verbatim>\<open>parseFloat\<close> of ECMAScript: leading white space is skipped and
    the longest prefix that is a decimal literal (sign, digits, fraction, exponent) is
    read; without such a prefix the result is \<^verbatim>\<open>NaN\<close>. The literal \<^verbatim>\<open>Infinity\<close> has no value
    among the rationals and is not read.
  \<^item> \<open>parseISO_ymd\<close> is \<^verbatim>\<open>parseISO\<close> on the form \<^verbatim>\<open>yyyy-MM-dd\<close> of an HTML date input: local
    midnight of that day of the proleptic Gregorian calendar, or an invalid date.
    \<open>parseISO_local\<close> reads the form \<^verbatim>\<open>yyyy-MM-ddTHH:mm\<close> as well, with hours from 00 to 23:
    without a zone designator, \<^verbatim>\<open>parseISO\<close> takes the time as local time. The other ISO 8601
    forms that date-fns reads are not covered.
  \<^item> \<open>formatLocal_en\<close> is \<^verbatim>\<open>format\<close> for the three patterns the planner uses, for years from
    0 to 9999.
  Days are counted from 1 January 1970.
\<close>

definition isWhiteSpace :: "char \<Rightarrow> bool" where
  "isWhiteSpace c = (c \<in> set [CHR 0x09, CHR 0x0A, CHR 0x0B, CHR 0x0C, CHR 0x0D, CHR 0x20])"

definition isDigit :: "char \<Rightarrow> bool" where
  "isDigit c = (c \<in> set ''0123456789'')"

definition digitVal :: "char \<Rightarrow> int" where
  "digitVal c = int (length (takeWhile (\<lambda>d. d \<noteq> c) ''0123456789''))"

definition digitsVal :: "string \<Rightarrow> int" where
  "digitsVal cs = foldl (\<lambda>a c. 10 * a + digitVal c) 0 cs"

definition splitSign :: "string \<Rightarrow> bool \<times> string" where
  "splitSign cs =
     (case cs of
        [] \<Rightarrow> (False, [])
      | c # rest \<Rightarrow>
          if c = CHR ''-'' then (True, rest)
          else if c = CHR ''+'' then (False, rest) else (False, cs))"

definition exponentPart :: "string \<Rightarrow> int" where
  "exponentPart cs =
     (case cs of
        [] \<Rightarrow> 0
      | c # rest \<Rightarrow>
          if c = CHR ''e'' \<or> c = CHR ''E'' then
            (let (neg, ds) = splitSign rest; digits = takeWhile isDigit ds
             in if digits = [] then 0
                else if neg then - digitsVal digits else digitsVal digits)
          else 0)"

definition scale10 :: "number \<Rightarrow> int \<Rightarrow> number" where
  "scale10 x e = (if 0 \<le> e then x * 10 ^ nat e else x / 10 ^ nat (- e))"

definition parseFloat_dec :: "string \<Rightarrow> number option" where
  "parseFloat_dec inputString =
     (let trimmed = dropWhile isWhiteSpace inputString;
          (neg, body) = splitSign trimmed;
          intDigits = takeWhile isDigit body;
          afterInt = dropWhile isDigit body;
          hasPoint = (afterInt \<noteq> [] \<and> hd afterInt = CHR ''.'');
          fracDigits = (if hasPoint then takeWhile isDigit (tl afterInt) else []);
          afterFrac = (if hasPoint then dropWhile isDigit (tl afterInt) else afterInt);
          mantissa = of_int (digitsVal intDigits)
                     + of_int (digitsVal fracDigits) / 10 ^ length fracDigits;
          magnitude = scale10 mantissa (exponentPart afterFrac)
      in if intDigits = [] \<and> fracDigits = [] then None
         else Some (if neg then - magnitude else magnitude))"

definition isLeapYear :: "int \<Rightarrow> bool" where
  "isLeapYear y = (y mod 4 = 0 \<and> (y mod 100 \<noteq> 0 \<or> y mod 400 = 0))"

definition daysInMonth :: "int \<Rightarrow> int \<Rightarrow> int" where
  "daysInMonth y m =
     (if m = 2 then (if isLeapYear y then 29 else 28)
      else if m = 4 \<or> m = 6 \<or> m = 9 \<or> m = 11 then 30 else 31)"

definition daysFromCivil :: "int \<Rightarrow> int \<Rightarrow> int \<Rightarrow> int" where
  "daysFromCivil y m d =
     (let y' = (if m \<le> 2 then y - 1 else y);
          era = y' div 400;
          yoe = y' - era * 400;
          doy = (153 * (if 2 < m then m - 3 else m + 9) + 2) div 5 + d - 1;
          doe = yoe * 365 + yoe div 4 - yoe div 100 + doy
      in era * 146097 + doe - 719468)"

definition civilFromDays :: "int \<Rightarrow> int \<times> int \<times> int" where
  "civilFromDays z =
     (let z' = z + 719468;
          era = z' div 146097;
          doe = z' - era * 146097;
          yoe = (doe - doe div 1460 + doe div 36524 - doe div 146096) div 365;
          doy = doe - (365 * yoe + yoe div 4 - yoe div 100);
          mp = (5 * doy + 2) div 153;
          d = doy - (153 * mp + 2) div 5 + 1;
          m = (if mp < 10 then mp + 3 else mp - 9);
          y = yoe + era * 400
      in (if m \<le> 2 then y + 1 else y, m, d))"

definition parseISO_ymd :: "string \<Rightarrow> jsdate" where
  "parseISO_ymd s =
     (if length s = 10 \<and> s ! 4 = CHR ''-'' \<and> s ! 7 = CHR ''-''
         \<and> list_all isDigit (take 4 s) \<and> list_all isDigit (take 2 (drop 5 s))
         \<and> list_all isDigit (drop 8 s)
      then (let y = digitsVal (take 4 s);
                m = digitsVal (take 2 (drop 5 s));
                d = digitsVal (drop 8 s)
            in if 1 \<le> m \<and> m \<le> 12 \<and> 1 \<le> d \<and> d \<le> daysInMonth y m
               then At (daysFromCivil y m d) 0 else InvalidDate)
      else InvalidDate)"

definition minuteOfDay :: "string \<Rightarrow> int option" where
  "minuteOfDay s =
     (if length s = 5 \<and> s ! 2 = CHR '':'' \<and> list_all isDigit (take 2 s)
         \<and> list_all isDigit (drop 3 s)
      then (let h = digitsVal (take 2 s); m = digitsVal (drop 3 s)
            in if h < 24 \<and> m < 60 then Some (h * 60 + m) else None)
      else None)"

definition parseISO_local :: "string \<Rightarrow> jsdate" where
  "parseISO_local s =
     (if length s = 16 \<and> s ! 10 = CHR ''T''
      then (case (parseISO_ymd (take 10 s), minuteOfDay (drop 11 s)) of
              (At d t, Some mins) \<Rightarrow> At d (nat (mins * 60000))
            | _ \<Rightarrow> InvalidDate)
      else parseISO_ymd s)"

definition digitChar :: "int \<Rightarrow> char" where
  "digitChar n = ''0123456789'' ! nat (n mod 10)"

definition pad2 :: "int \<Rightarrow> string" where
  "pad2 n = [digitChar (n div 10), digitChar n]"

definition pad4 :: "int \<Rightarrow> string" where
  "pad4 n = [digitChar (n div 1000), digitChar (n div 100), digitChar (n div 10), digitChar n]"

definition monthName :: "int \<Rightarrow> string" where
  "monthName m =
     [''January'', ''February'', ''March'', ''April'', ''May'', ''June'', ''July'',
      ''August'', ''September'', ''October'', ''November'', ''December''] ! nat ((m - 1) mod 12)"

definition weekdayName :: "int \<Rightarrow> string" where
  "weekdayName z =
     [''Sunday'', ''Monday'', ''Tuesday'', ''Wednesday'', ''Thursday'', ''Friday'',
      ''Saturday''] ! nat ((z + 4) mod 7)"

definition formatLocal_en :: "int \<Rightarrow> nat \<Rightarrow> string \<Rightarrow> string" where
  "formatLocal_en z t pattern =
     (let (y, m, d) = civilFromDays z
      in if pattern = ''yyyy-MM-dd'' then pad4 y @ ''-'' @ pad2 m @ ''-'' @ pad2 d
         else if pattern = ''MMMM d, yyyy'' then
           monthName m @ '' '' @ (if d < 10 then [digitChar d] else pad2 d) @ '', '' @ pad4 y
         else if pattern = ''EEEE'' then weekdayName z
         else pattern)"

definition jslib :: lib where
  "jslib =
     \<lparr>parseFloat = parseFloat_dec, parseISO = parseISO_local, formatLocal = formatLocal_en,
      skippedDay = (\<lambda>d. False), dayStart = (\<lambda>d. 0)\<rparr>"

definition apiaLib :: lib where
  "apiaLib = jslib\<lparr>skippedDay := (\<lambda>d. d = 15338)\<rparr>"

subsection \<open>Properties of the result, for the proofs\<close>

text \<open>
  The value that \<^verbatim>\<open>calculations\<close> binds to \<^verbatim>\<open>available\<close>, as a function of the state.
\<close>

definition availableOf :: "lib \<Rightarrow> PlannerState \<Rightarrow> number" where
  "availableOf lib st =
     max 0 (orZero (parseFloat lib (totalAmount st)) - totalSavings lib (savingsGoals st))"

text \<open>
  \<open>carried b c es\<close>: the entries \<open>es\<close> form a carryover chain with base share \<open>b\<close> that starts
  from the carryover \<open>c\<close>. \<open>lastCarry c es\<close> is the carryover such a chain ends with.
\<close>

fun carried :: "number \<Rightarrow> number \<Rightarrow> DayEntry list \<Rightarrow> bool" where
  "carried b c [] = True"
| "carried b c (e # es) =
     (allowance e = b + c \<and> remaining e = allowance e - spent e \<and> carried b (remaining e) es)"

definition lastCarry :: "number \<Rightarrow> DayEntry list \<Rightarrow> number" where
  "lastCarry c es = (if es = [] then c else remaining (last es))"

text \<open>
  \<open>spentRule lib exps e\<close>: the entry \<open>e\<close> carries the key of its own date, and its \<open>spent\<close> is
  what the expense recorded under that key gives.
\<close>

definition spentRule :: "lib \<Rightarrow> (string \<rightharpoonup> string) \<Rightarrow> DayEntry \<Rightarrow> bool" where
  "spentRule lib exps e =
     (format lib (date e) ''yyyy-MM-dd'' = Inr (dateKey e) \<and>
      spent e = (case exps (dateKey e) of
                   None \<Rightarrow> allowance e
                 | Some s \<Rightarrow> if s = [] then allowance e
                            else (case parseFloat lib s of None \<Rightarrow> 0 | Some v \<Rightarrow> v)))"

subsection \<open>Scenarios\<close>

text \<open>
  Concrete planner states with the ledgers the planner computes for them. The clock
  reads 14:30 on 3 March 2024. \<open>marchPlan\<close> runs over five days with an expense below the
  allowance, one above it, a day without entry, an empty entry and an entry that is not a
  number. The other plans cover a single day, or a reversed range; \<open>blankPlan\<close> has no
  number in either amount.
\<close>

definition clock :: jsdate where
  "clock = At 19785 52200000"

definition marchPlan :: PlannerState where
  "marchPlan =
     \<lparr>totalAmount = ''2500'', startDate = ''2024-03-01'', endDate = ''2024-03-05'',
      expenses = [''2024-03-01'' \<mapsto> ''300'', ''2024-03-02'' \<mapsto> ''600'',
                  ''2024-03-04'' \<mapsto> '''', ''2024-03-05'' \<mapsto> ''abc''],
      savingsGoals =
        [\<lparr>goal_id = ''g1'', goal_name = ''General Savings'',
          amount = ''500'', category = ''other''\<rparr>]\<rparr>"

definition marchLedger :: Ledger where
  "marchLedger =
     \<lparr>daysCount = 5, available = 2000, dailyAllowance = 400,
      days =
        [\<lparr>date = At 19783 0, dateKey = ''2024-03-01'',
           formattedDate = ''March 1, 2024'', dayName = ''Friday'',
           allowance = 400, spent = 300, remaining = 100\<rparr>,
         \<lparr>date = At 19784 0, dateKey = ''2024-03-02'',
           formattedDate = ''March 2, 2024'', dayName = ''Saturday'',
           allowance = 500, spent = 600, remaining = - 100\<rparr>,
         \<lparr>date = At 19785 0, dateKey = ''2024-03-03'',
           formattedDate = ''March 3, 2024'', dayName = ''Sunday'',
           allowance = 300, spent = 300, remaining = 0\<rparr>,
         \<lparr>date = At 19786 0, dateKey = ''2024-03-04'',
           formattedDate = ''March 4, 2024'', dayName = ''Monday'',
           allowance = 400, spent = 400, remaining = 0\<rparr>,
         \<lparr>date = At 19787 0, dateKey = ''2024-03-05'',
           formattedDate = ''March 5, 2024'', dayName = ''Tuesday'',
           allowance = 400, spent = 0, remaining = 400\<rparr>],
      isValidRange = True, totalSpent = 1600, totalRemaining = 400, spentPercentage = 80,
      spentUpToToday = Some 1200\<rparr>"

definition negativeGoalPlan :: PlannerState where
  "negativeGoalPlan =
     \<lparr>totalAmount = ''100'', startDate = ''2024-03-01'', endDate = ''2024-03-01'',
      expenses = Map.empty,
      savingsGoals =
        [\<lparr>goal_id = ''g1'', goal_name = ''General Savings'',
          amount = ''-50'', category = ''other''\<rparr>]\<rparr>"

definition negativeGoalLedger :: Ledger where
  "negativeGoalLedger =
     \<lparr>daysCount = 1, available = 150, dailyAllowance = 150,
      days =
        [\<lparr>date = At 19783 0, dateKey = ''2024-03-01'',
           formattedDate = ''March 1, 2024'', dayName = ''Friday'',
           allowance = 150, spent = 150, remaining = 0\<rparr>],
      isValidRange = True, totalSpent = 150, totalRemaining = 0, spentPercentage = 100,
      spentUpToToday = Some 150\<rparr>"

definition negativeTotalPlan :: PlannerState where
  "negativeTotalPlan =
     \<lparr>totalAmount = ''-100'', startDate = ''2024-03-01'', endDate = ''2024-03-01'',
      expenses = Map.empty,
      savingsGoals =
        [\<lparr>goal_id = ''g1'', goal_name = ''General Savings'',
          amount = ''200'', category = ''other''\<rparr>]\<rparr>"

definition negativeTotalLedger :: Ledger where
  "negativeTotalLedger =
     \<lparr>daysCount = 1, available = 0, dailyAllowance = 0,
      days =
        [\<lparr>date = At 19783 0, dateKey = ''2024-03-01'',
           formattedDate = ''March 1, 2024'', dayName = ''Friday'',
           allowance = 0, spent = 0, remaining = 0\<rparr>],
      isValidRange = True, totalSpent = 0, totalRemaining = 0, spentPercentage = 0,
      spentUpToToday = Some 0\<rparr>"

definition zeroTotalNegativeGoalPlan :: PlannerState where
  "zeroTotalNegativeGoalPlan =
     \<lparr>totalAmount = ''0'', startDate = ''2024-03-01'', endDate = ''2024-03-01'',
      expenses = Map.empty,
      savingsGoals =
        [\<lparr>goal_id = ''g1'', goal_name = ''General Savings'',
          amount = ''-50'', category = ''other''\<rparr>]\<rparr>"

definition zeroTotalNegativeGoalLedger :: Ledger where
  "zeroTotalNegativeGoalLedger =
     \<lparr>daysCount = 1, available = 50, dailyAllowance = 50,
      days =
        [\<lparr>date = At 19783 0, dateKey = ''2024-03-01'',
           formattedDate = ''March 1, 2024'', dayName = ''Friday'',
           allowance = 50, spent = 50, remaining = 0\<rparr>],
      isValidRange = True, totalSpent = 50, totalRemaining = 0, spentPercentage = 100,
      spentUpToToday = Some 50\<rparr>"

definition zeroTotalPlan :: PlannerState where
  "zeroTotalPlan =
     \<lparr>totalAmount = ''0'', startDate = ''2024-03-01'', endDate = ''2024-03-01'',
      expenses = Map.empty,
      savingsGoals =
        [\<lparr>goal_id = ''g1'', goal_name = ''General Savings'',
          amount = ''200'', category = ''other''\<rparr>]\<rparr>"

definition zeroTotalLedger :: Ledger where
  "zeroTotalLedger =
     \<lparr>daysCount = 1, available = 0, dailyAllowance = 0,
      days =
        [\<lparr>date = At 19783 0, dateKey = ''2024-03-01'',
           formattedDate = ''March 1, 2024'', dayName = ''Friday'',
           allowance = 0, spent = 0, remaining = 0\<rparr>],
      isValidRange = True, totalSpent = 0, totalRemaining = 0, spentPercentage = 0,
      spentUpToToday = Some 0\<rparr>"

definition negativeBothPlan :: PlannerState where
  "negativeBothPlan =
     \<lparr>totalAmount = ''-100'', startDate = ''2024-03-01'', endDate = ''2024-03-01'',
      expenses = Map.empty,
      savingsGoals =
        [\<lparr>goal_id = ''g1'', goal_name = ''General Savings'',
          amount = ''-300'', category = ''other''\<rparr>]\<rparr>"

definition negativeBothLedger :: Ledger where
  "negativeBothLedger =
     \<lparr>daysCount = 1, available = 200, dailyAllowance = 200,
      days =
        [\<lparr>date = At 19783 0, dateKey = ''2024-03-01'',
           formattedDate = ''March 1, 2024'', dayName = ''Friday'',
           allowance = 200, spent = 200, remaining = 0\<rparr>],
      isValidRange = True, totalSpent = 200, totalRemaining = 0, spentPercentage = 100,
      spentUpToToday = Some 200\<rparr>"

definition blankPlan :: PlannerState where
  "blankPlan =
     \<lparr>totalAmount = '''', startDate = ''2024-03-01'', endDate = ''2024-03-01'',
      expenses = Map.empty,
      savingsGoals =
        [\<lparr>goal_id = ''g1'', goal_name = ''General Savings'',
          amount = ''abc'', category = ''other''\<rparr>]\<rparr>"

text \<open>
  Three more plans. \<open>partDayPlan\<close> runs from noon of 1 March 2024 to six in the morning of
  the next day. \<open>apiaPlan\<close> runs from 29 to 31 December 2011, and \<open>apiaLedger\<close> is its ledger
  where 30 December does not exist. \<open>roundingPlan\<close> runs over three days with expenses of
  \<^verbatim>\<open>1488.16\<close> and \<^verbatim>\<open>511.84\<close>, and \<open>roundingLedger\<close> is its ledger in double precision: the
  fractions are the doubles nearest to 1488.16, \<open>- 488.16\<close>, 511.84 and so on.
\<close>

definition partDayPlan :: PlannerState where
  "partDayPlan =
     \<lparr>totalAmount = ''300'', startDate = ''2024-03-01T12:00'', endDate = ''2024-03-02T06:00'',
      expenses = Map.empty,
      savingsGoals =
        [\<lparr>goal_id = ''g1'', goal_name = ''General Savings'',
          amount = ''0'', category = ''other''\<rparr>]\<rparr>"

definition partDayLedger :: Ledger where
  "partDayLedger =
     \<lparr>daysCount = 1, available = 300, dailyAllowance = 300,
      days =
        [\<lparr>date = At 19783 0, dateKey = ''2024-03-01'',
           formattedDate = ''March 1, 2024'', dayName = ''Friday'',
           allowance = 300, spent = 300,
           remaining = 0\<rparr>,
         \<lparr>date = At 19784 0, dateKey = ''2024-03-02'',
           formattedDate = ''March 2, 2024'', dayName = ''Saturday'',
           allowance = 300, spent = 300,
           remaining = 0\<rparr>],
      isValidRange = True, totalSpent = 600, totalRemaining = - 300, spentPercentage = 100,
      spentUpToToday = Some 600\<rparr>"

definition apiaPlan :: PlannerState where
  "apiaPlan =
     \<lparr>totalAmount = ''300'', startDate = ''2011-12-29'', endDate = ''2011-12-31'',
      expenses = Map.empty,
      savingsGoals =
        [\<lparr>goal_id = ''g1'', goal_name = ''General Savings'',
          amount = ''0'', category = ''other''\<rparr>]\<rparr>"

definition apiaLedger :: Ledger where
  "apiaLedger =
     \<lparr>daysCount = 3, available = 300, dailyAllowance = 100,
      days =
        [\<lparr>date = At 15337 0, dateKey = ''2011-12-29'',
           formattedDate = ''December 29, 2011'', dayName = ''Thursday'',
           allowance = 100, spent = 100,
           remaining = 0\<rparr>,
         \<lparr>date = At 15339 0, dateKey = ''2011-12-31'',
           formattedDate = ''December 31, 2011'', dayName = ''Saturday'',
           allowance = 100, spent = 100,
           remaining = 0\<rparr>],
      isValidRange = True, totalSpent = 200, totalRemaining = 100, spentPercentage = 200 / 3,
      spentUpToToday = Some 200\<rparr>"

definition roundingPlan :: PlannerState where
  "roundingPlan =
     \<lparr>totalAmount = ''3000'', startDate = ''2024-03-01'', endDate = ''2024-03-03'',
      expenses = [''2024-03-01'' \<mapsto> ''1488.16'', ''2024-03-02'' \<mapsto> ''511.84''],
      savingsGoals =
        [\<lparr>goal_id = ''g1'', goal_name = ''General Savings'',
          amount = ''0'', category = ''other''\<rparr>]\<rparr>"

definition roundingLedger :: Ledger where
  "roundingLedger =
     \<lparr>daysCount = 3, available = 3000, dailyAllowance = 1000,
      days =
        [\<lparr>date = At 19783 0, dateKey = ''2024-03-01'',
           formattedDate = ''March 1, 2024'', dayName = ''Friday'',
           allowance = 1000, spent = 6544996895964529 / 4398046511104,
           remaining = - (2146950384860529 / 4398046511104)\<rparr>,
         \<lparr>date = At 19784 0, dateKey = ''2024-03-02'',
           formattedDate = ''March 2, 2024'', dayName = ''Saturday'',
           allowance = 2251096126243471 / 4398046511104, spent = 9004384504973885 / 17592186044416,
           remaining = - (1 / 17592186044416)\<rparr>,
         \<lparr>date = At 19785 0, dateKey = ''2024-03-03'',
           formattedDate = ''March 3, 2024'', dayName = ''Sunday'',
           allowance = 1000, spent = 1000,
           remaining = 0\<rparr>],
      isValidRange = True, totalSpent = 3000, totalRemaining = 0, spentPercentage = 100,
      spentUpToToday = Some 3000\<rparr>"

definition reversedPlan :: PlannerState where
  "reversedPlan =
     \<lparr>totalAmount = ''1000'', startDate = ''2024-03-02'', endDate = ''2024-03-01'',
      expenses = Map.empty,
      savingsGoals =
        [\<lparr>goal_id = ''g1'', goal_name = ''General Savings'',
          amount = ''200'', category = ''other''\<rparr>]\<rparr>"

definition reversedLedger :: Ledger where
  "reversedLedger =
     \<lparr>daysCount = 0, available = 800, dailyAllowance = 0, days = [], isValidRange = False,
      totalSpent = 0, totalRemaining = 800, spentPercentage = 0, spentUpToToday = None\<rparr>"


section \<open>Lemmas\<close>

subsection \<open>The loop\<close>

lemma orZero_eq: "orZero x = (case x of None \<Rightarrow> 0 | Some v \<Rightarrow> v)"
  by (simp add: orZero_def split: option.splits)

lemma dayStep_valid:
  "\<exists>e. dayStep lib exps b c (At d t) = Inr (remaining e, e) \<and> date e = At d t
       \<and> allowance e = b + c \<and> remaining e = allowance e - spent e \<and> spentRule lib exps e"
  by (cases "exps (formatLocal lib d t ''yyyy-MM-dd'')")
     (simp_all add: dayStep_def bindE_def spentRule_def orZero_eq Let_def)

lemma forEachDay_valid:
  assumes "\<forall>dt \<in> set ds. isValid dt"
  shows "\<exists>new. forEachDay lib exps b ds (c, acc) = Inr (lastCarry c new, acc @ new)
            \<and> map date new = ds \<and> carried b c new \<and> (\<forall>e \<in> set new. spentRule lib exps e)"
  using assms
proof (induction ds arbitrary: c acc)
  case Nil
  show ?case by (simp add: lastCarry_def)
next
  case (Cons dt ds)
  from Cons.prems obtain d t where dt: "dt = At d t"
    by (cases dt) auto
  obtain e where e: "dayStep lib exps b c (At d t) = Inr (remaining e, e)" "date e = At d t"
      "allowance e = b + c" "remaining e = allowance e - spent e" "spentRule lib exps e"
    using dayStep_valid by blast
  from Cons.prems have "\<forall>x \<in> set ds. isValid x" by simp
  from Cons.IH [OF this, of "remaining e" "acc @ [e]"]
  obtain new where new: "forEachDay lib exps b ds (remaining e, acc @ [e])
        = Inr (lastCarry (remaining e) new, (acc @ [e]) @ new)"
      "map date new = ds" "carried b (remaining e) new" "\<forall>x \<in> set new. spentRule lib exps x"
    by blast
  have lc: "lastCarry (remaining e) new = lastCarry c (e # new)"
    by (simp add: lastCarry_def)
  have "forEachDay lib exps b (dt # ds) (c, acc)
      = forEachDay lib exps b ds (remaining e, acc @ [e])"
    by (simp add: dt e(1) bindE_def)
  also have "\<dots> = Inr (lastCarry c (e # new), acc @ (e # new))"
    unfolding new(1) lc by simp
  finally have run: "forEachDay lib exps b (dt # ds) (c, acc)
      = Inr (lastCarry c (e # new), acc @ (e # new))" .
  have dates: "map date (e # new) = dt # ds"
    by (simp add: e(2) new(2) dt)
  have chain: "carried b c (e # new)"
    unfolding carried.simps using e(3) e(4) new(3) by blast
  have rules: "\<forall>x \<in> set (e # new). spentRule lib exps x"
    using e(5) new(4) by simp
  show ?case
    by (rule exI [of _ "e # new"]) (intro conjI run dates chain rules)
qed

subsection \<open>Carryover chains\<close>

lemma carried_ConsD:
  assumes "carried b c (e # es)"
  shows "allowance e = b + c" and "remaining e = allowance e - spent e"
    and "carried b (remaining e) es"
  using assms unfolding carried.simps by blast+

lemma carried_first: "carried b c es \<Longrightarrow> es \<noteq> [] \<Longrightarrow> allowance (es ! 0) = b + c"
  by (cases es) simp_all

lemma carried_next:
  "carried b c es \<Longrightarrow> Suc i < length es \<Longrightarrow> allowance (es ! Suc i) = b + remaining (es ! i)"
proof (induction es arbitrary: c i)
  case Nil
  then show ?case by simp
next
  case (Cons e es)
  note tl = carried_ConsD(3) [OF Cons.prems(1)]
  show ?case
  proof (cases i)
    case 0
    with Cons.prems(2) obtain e' es' where es: "es = e' # es'"
      by (cases es) auto
    with tl have "allowance e' = b + remaining e"
      by (blast dest: carried_ConsD(1))
    then show ?thesis by (simp add: 0 es)
  next
    case (Suc j)
    with Cons.prems(2) have "Suc j < length es" by simp
    from Cons.IH [OF tl this] Suc show ?thesis by simp
  qed
qed

lemma carried_remaining:
  "carried b c es \<Longrightarrow> i < length es \<Longrightarrow> remaining (es ! i) = allowance (es ! i) - spent (es ! i)"
proof (induction es arbitrary: c i)
  case Nil
  then show ?case by simp
next
  case (Cons e es)
  then show ?case by (cases i) auto
qed

lemma carried_sum:
  "carried b c es \<Longrightarrow> sum_list (map spent es) = of_nat (length es) * b + c - lastCarry c es"
proof (induction es arbitrary: c)
  case Nil
  show ?case by (simp add: lastCarry_def)
next
  case (Cons e es)
  note step = carried_ConsD [OF Cons.prems]
  have lc: "lastCarry c (e # es) = lastCarry (remaining e) es"
    by (simp add: lastCarry_def)
  have "sum_list (map spent (e # es)) = spent e + sum_list (map spent es)" by simp
  also have "\<dots> = spent e + (of_nat (length es) * b + remaining e - lastCarry (remaining e) es)"
    by (simp only: Cons.IH [OF step(3)])
  also have "\<dots> = of_nat (length (e # es)) * b + c - lastCarry c (e # es)"
    unfolding lc step(2) step(1) by (simp add: algebra_simps)
  finally show ?case .
qed

subsection \<open>The sums\<close>

lemma foldl_spent: "foldl (\<lambda>sum day. sum + spent day) a es = a + sum_list (map spent es)"
  by (induction es arbitrary: a) (simp_all add: add.assoc)

lemma totalSavings_sum:
  "totalSavings lib goals = sum_list (map (\<lambda>g. orZero (parseFloat lib (amount g))) goals)"
proof -
  have "foldl (\<lambda>sum goal. sum + orZero (parseFloat lib (amount goal))) a goals
      = a + sum_list (map (\<lambda>g. orZero (parseFloat lib (amount g))) goals)" for a
    by (induction goals arbitrary: a) (simp_all add: add.assoc)
  then show ?thesis by (simp add: totalSavings_def)
qed

lemma foldl_upToToday:
  assumes "\<forall>e \<in> set ds. isValid (date e)"
  shows "foldl (\<lambda>sum day. let dayDate = setHours0 lib (date day)
                 in if isBefore dayDate (At dn (min t (dayStart lib dn)))
                       \<or> isToday (At dn t) dayDate
                    then sum + spent day else sum) a ds
         = a + sum_list (map spent (filter (\<lambda>e. dayOf (date e) \<le> dn) ds))"
  using assms
proof (induction ds arbitrary: a)
  case Nil
  show ?case by simp
next
  case (Cons e ds)
  from Cons.prems obtain d u where d: "date e = At d u"
    by (cases "date e") auto
  from Cons.prems have "\<forall>x \<in> set ds. isValid (date x)" by simp
  note IH = Cons.IH [OF this, unfolded Let_def isToday_def]
  show ?case
    by (cases "d \<le> dn") (auto simp: d isToday_def IH Let_def)
qed

lemma sumUpToToday_eq:
  assumes "\<forall>e \<in> set ds. isValid (date e)"
  shows "sumUpToToday lib (At dn t) ds
           = sum_list (map spent (filter (\<lambda>e. dayOf (date e) \<le> dn) ds))"
  using foldl_upToToday [OF assms, of lib dn t 0] by (simp add: sumUpToToday_def Let_def)

subsection \<open>Counting days\<close>

lemma differenceInDays_ordered:
  assumes "\<not> date_gt (At sd st) (At ed et)"
  shows "differenceInDays lib (At ed et) (At sd st)
           = ed - sd
             - (if sd < ed \<and> (if et < dayStart lib sd then et + dayStart lib sd else et) < st
                then 1 else 0)"
  using assms by (auto simp: Let_def)

lemma differenceInDays_nonneg:
  "\<not> date_gt (At sd st) (At ed et) \<Longrightarrow> 0 \<le> differenceInDays lib (At ed et) (At sd st)"
  using differenceInDays_ordered [of sd st ed et lib] by (auto split: if_splits)

lemma differenceInDays_calendar:
  assumes "sd \<le> ed"
  shows "differenceInDays lib (At ed (dayStart lib ed)) (At sd (dayStart lib sd)) = ed - sd"
proof -
  from assms have "\<not> date_gt (At sd (dayStart lib sd)) (At ed (dayStart lib ed))"
    by auto
  from differenceInDays_ordered [OF this, of lib] show ?thesis
    by (simp split: if_splits)
qed

text \<open>
  What \<^verbatim>\<open>eachDayOfInterval\<close> emits is never empty and holds valid dates only; over calendar
  days none of which the zone skips, it is the start of every day from the first to the
  last.
\<close>

lemma eachDayOfInterval_ordered:
  assumes "\<not> date_gt (At sd st) (At ed et)"
  shows "\<exists>arr. eachDayOfInterval lib (At sd st) (At ed et) = Inr arr \<and> arr \<noteq> []
           \<and> (\<forall>dt \<in> set arr. isValid dt)"
  using assms by auto

lemma eachDayOfInterval_calendar:
  assumes le: "sd \<le> ed" and ex: "\<forall>d \<in> {sd..ed}. \<not> skippedDay lib d"
  shows "eachDayOfInterval lib (At sd (dayStart lib sd)) (At ed (dayStart lib ed))
           = Inr (map (\<lambda>d. At d (dayStart lib d)) [sd..ed])"
proof -
  from le have ord: "\<not> date_gt (At sd (dayStart lib sd)) (At ed (dayStart lib ed))"
    by auto
  have all: "filter (\<lambda>d. \<not> skippedDay lib d) [sd + 1..ed] = [sd + 1..ed]"
    using ex by (intro filter_True) auto
  have upto: "filter (\<lambda>c. \<not> date_gt c (At ed (dayStart lib ed)))
        (map (\<lambda>d. At d (dayStart lib d)) [sd + 1..ed])
      = map (\<lambda>d. At d (dayStart lib d)) [sd + 1..ed]"
    by (intro filter_True) auto
  from le have split: "[sd..ed] = sd # [sd + 1..ed]"
    by (simp add: upto_rec1)
  show ?thesis
    using ord by (simp add: all upto split)
qed

subsection \<open>The two branches of calculations\<close>

lemma calculations_invalid:
  assumes "\<not> isValid (parseISO lib (startDate st)) \<or> \<not> isValid (parseISO lib (endDate st))
           \<or> date_gt (parseISO lib (startDate st)) (parseISO lib (endDate st))"
  shows "calculations lib st now =
           Inr \<lparr>daysCount = 0, available = availableOf lib st, dailyAllowance = 0, days = [],
                isValidRange = False, totalSpent = 0, totalRemaining = availableOf lib st,
                spentPercentage = 0, spentUpToToday = None\<rparr>"
  using assms by (simp add: calculations_def availableOf_def Let_def)

lemma calculations_valid:
  assumes s: "parseISO lib (startDate st) = At sd stt"
    and e: "parseISO lib (endDate st) = At ed et"
    and ord: "\<not> date_gt (At sd stt) (At ed et)"
  shows "\<exists>ds. (\<forall>now. calculations lib st now =
           Inr \<lparr>daysCount = differenceInDays lib (At ed et) (At sd stt) + 1,
                available = availableOf lib st,
                dailyAllowance =
                  availableOf lib st / of_int (differenceInDays lib (At ed et) (At sd stt) + 1),
                days = ds, isValidRange = True,
                totalSpent = sum_list (map spent ds),
                totalRemaining = availableOf lib st - sum_list (map spent ds),
                spentPercentage =
                  (if 0 < availableOf lib st
                   then min 100 (sum_list (map spent ds) / availableOf lib st * 100) else 0),
                spentUpToToday = Some (sumUpToToday lib now ds)\<rparr>)
         \<and> eachDayOfInterval lib (At sd stt) (At ed et) = Inr (map date ds)
         \<and> ds \<noteq> [] \<and> (\<forall>x \<in> set ds. isValid (date x))
         \<and> carried (availableOf lib st / of_int (differenceInDays lib (At ed et) (At sd stt) + 1)) 0 ds
         \<and> (\<forall>x \<in> set ds. spentRule lib (expenses st) x)"
proof -
  define A where "A = availableOf lib st"
  define n where "n = differenceInDays lib (At ed et) (At sd stt) + 1"
  define b where "b = A / of_int n"
  have npos: "0 < n"
    using differenceInDays_nonneg [OF ord] by (simp add: n_def)
  have base: "(if 0 < n then divide_num A (of_int n) else Inr 0) = Inr b"
    using npos by (simp add: divide_num_def b_def)
  from eachDayOfInterval_ordered [OF ord, of lib] obtain arr where
    each: "eachDayOfInterval lib (At sd stt) (At ed et) = Inr arr"
    and arr: "arr \<noteq> []" "\<forall>dt \<in> set arr. isValid dt"
    by blast
  from forEachDay_valid [OF arr(2), of lib "expenses st" b 0 "[]"]
  obtain ds where ds: "forEachDay lib (expenses st) b arr (0, []) = Inr (lastCarry 0 ds, ds)"
      "map date ds = arr" "carried b 0 ds"
      "\<forall>x \<in> set ds. spentRule lib (expenses st) x"
    by auto
  from arr(1) ds(2) have nonempty: "ds \<noteq> []"
    by auto
  have "\<forall>x \<in> set ds. date x \<in> set (map date ds)"
    by simp
  with arr(2) have dates_valid: "\<forall>x \<in> set ds. isValid (date x)"
    unfolding ds(2) by blast
  have each': "eachDayOfInterval lib (At sd stt) (At ed et) = Inr (map date ds)"
    by (simp only: each ds(2))
  have "calculations lib st now =
           Inr \<lparr>daysCount = n, available = A, dailyAllowance = b, days = ds, isValidRange = True,
                totalSpent = sum_list (map spent ds),
                totalRemaining = A - sum_list (map spent ds),
                spentPercentage =
                  (if 0 < A then min 100 (sum_list (map spent ds) / A * 100) else 0),
                spentUpToToday = Some (sumUpToToday lib now ds)\<rparr>" for now
    unfolding calculations_def Let_def s e availableOf_def [symmetric] A_def [symmetric]
      n_def [symmetric]
    using ord
    by (simp del: eachDayOfInterval.simps differenceInDays.simps
        add: base each ds(1) foldl_spent bindE_def divide_num_def)
  with each' nonempty dates_valid ds(3,4) show ?thesis
    unfolding A_def n_def b_def by blast
qed

lemma calculations_total: "\<exists>L. calculations lib st now = Inr L"
proof (cases "\<not> isValid (parseISO lib (startDate st)) \<or> \<not> isValid (parseISO lib (endDate st))
           \<or> date_gt (parseISO lib (startDate st)) (parseISO lib (endDate st))")
  case True
  from calculations_invalid [OF this] show ?thesis by blast
next
  case False
  then obtain sd stt ed et where "parseISO lib (startDate st) = At sd stt"
      "parseISO lib (endDate st) = At ed et" "\<not> date_gt (At sd stt) (At ed et)"
    by (cases "parseISO lib (startDate st)"; cases "parseISO lib (endDate st)") auto
  from calculations_valid [OF this] show ?thesis by blast
qed

lemma valid_rangeE:
  assumes "calculations lib st now = Inr L" and "isValidRange L"
  obtains sd stt ed et where "parseISO lib (startDate st) = At sd stt"
    and "parseISO lib (endDate st) = At ed et" and "\<not> date_gt (At sd stt) (At ed et)"
proof -
  let ?s = "parseISO lib (startDate st)" and ?e = "parseISO lib (endDate st)"
  have ok: "\<not> (\<not> isValid ?s \<or> \<not> isValid ?e \<or> date_gt ?s ?e)"
  proof
    assume "\<not> isValid ?s \<or> \<not> isValid ?e \<or> date_gt ?s ?e"
    from calculations_invalid [OF this, of now] assms show False by simp
  qed
  then obtain sd stt ed et where "?s = At sd stt" "?e = At ed et"
    by (cases ?s; cases ?e) auto
  with ok that show thesis by metis
qed

lemma valid_ledger:
  assumes run: "calculations lib st now = Inr L" and valid: "isValidRange L"
  shows "0 < daysCount L"
    and "available L = availableOf lib st"
    and "dailyAllowance L = available L / of_int (daysCount L)"
    and "days L \<noteq> []"
    and "carried (dailyAllowance L) 0 (days L)"
    and "\<forall>x \<in> set (days L). spentRule lib (expenses st) x"
    and "\<forall>x \<in> set (days L). isValid (date x)"
    and "totalSpent L = sum_list (map spent (days L))"
    and "totalRemaining L = available L - totalSpent L"
    and "spentUpToToday L = Some (sumUpToToday lib now (days L))"
    and "\<forall>now'. calculations lib st now' =
           Inr (L\<lparr>spentUpToToday := Some (sumUpToToday lib now' (days L))\<rparr>)"
proof -
  from run valid obtain sd stt ed et where p: "parseISO lib (startDate st) = At sd stt"
      "parseISO lib (endDate st) = At ed et" "\<not> date_gt (At sd stt) (At ed et)"
    by (rule valid_rangeE)
  from calculations_valid [OF p] obtain ds where
    all: "\<And>now. calculations lib st now =
           Inr \<lparr>daysCount = differenceInDays lib (At ed et) (At sd stt) + 1,
                available = availableOf lib st,
                dailyAllowance =
                  availableOf lib st / of_int (differenceInDays lib (At ed et) (At sd stt) + 1),
                days = ds, isValidRange = True,
                totalSpent = sum_list (map spent ds),
                totalRemaining = availableOf lib st - sum_list (map spent ds),
                spentPercentage =
                  (if 0 < availableOf lib st
                   then min 100 (sum_list (map spent ds) / availableOf lib st * 100) else 0),
                spentUpToToday = Some (sumUpToToday lib now ds)\<rparr>"
    and nonempty: "ds \<noteq> []" and dates_valid: "\<forall>x \<in> set ds. isValid (date x)"
    and chain: "carried (availableOf lib st / of_int (differenceInDays lib (At ed et) (At sd stt) + 1)) 0 ds"
    and rules: "\<forall>x \<in> set ds. spentRule lib (expenses st) x"
    by blast
  from all [of now] run have L: "L =
           \<lparr>daysCount = differenceInDays lib (At ed et) (At sd stt) + 1,
                available = availableOf lib st,
                dailyAllowance =
                  availableOf lib st / of_int (differenceInDays lib (At ed et) (At sd stt) + 1),
                days = ds, isValidRange = True,
                totalSpent = sum_list (map spent ds),
                totalRemaining = availableOf lib st - sum_list (map spent ds),
                spentPercentage =
                  (if 0 < availableOf lib st
                   then min 100 (sum_list (map spent ds) / availableOf lib st * 100) else 0),
                spentUpToToday = Some (sumUpToToday lib now ds)\<rparr>"
    by simp
  show "0 < daysCount L"
    using differenceInDays_nonneg [OF p(3), of lib]
    by (simp del: differenceInDays.simps add: L)
  show "available L = availableOf lib st" by (simp add: L)
  show "dailyAllowance L = available L / of_int (daysCount L)" by (simp add: L)
  from nonempty show "days L \<noteq> []" by (simp add: L)
  show "carried (dailyAllowance L) 0 (days L)" using chain by (simp add: L)
  show "\<forall>x \<in> set (days L). spentRule lib (expenses st) x" using rules by (simp add: L)
  from dates_valid show "\<forall>x \<in> set (days L). isValid (date x)" by (simp add: L)
  show "totalSpent L = sum_list (map spent (days L))" by (simp add: L)
  show "totalRemaining L = available L - totalSpent L" by (simp add: L)
  show "spentUpToToday L = Some (sumUpToToday lib now (days L))" by (simp add: L)
  show "\<forall>now'. calculations lib st now' =
           Inr (L\<lparr>spentUpToToday := Some (sumUpToToday lib now' (days L))\<rparr>)"
    by (simp add: all L)
qed

subsection \<open>Rounding with the identity\<close>

lemma bindE_Inr: "bindE m (\<lambda>q. Inr q) = m"
  by (cases m) (simp_all add: bindE_def)

lemma totalSavingsR_exact: "totalSavingsR (\<lambda>x. x) lib goals = totalSavings lib goals"
  by (simp add: totalSavingsR_def totalSavings_def option.map_ident)

lemma dayStepR_exact: "dayStepR (\<lambda>x. x) lib exps b c dt = dayStep lib exps b c dt"
  by (simp add: dayStepR_def dayStep_def option.map_ident cong: if_cong)

lemma forEachDayR_exact:
  "forEachDayR (\<lambda>x. x) lib exps b ds s = forEachDay lib exps b ds s"
  by (induction lib exps b ds s rule: forEachDay.induct)
     (simp_all add: dayStepR_exact bindE_def split: sum.splits)

lemma sumUpToTodayR_exact: "sumUpToTodayR (\<lambda>x. x) lib now ds = sumUpToToday lib now ds"
  by (simp add: sumUpToTodayR_def sumUpToToday_def)

lemma calculationsR_exact: "calculationsR (\<lambda>x. x) lib st now = calculations lib st now"
  by (simp add: calculationsR_def calculations_def totalSavingsR_exact forEachDayR_exact
      sumUpToTodayR_exact bindE_Inr option.map_ident
      del: differenceInDays.simps eachDayOfInterval.simps cong: if_cong)

subsection \<open>Evaluation of the scenarios\<close>

lemma jslib_sel:
  "parseFloat jslib = parseFloat_dec" "parseISO jslib = parseISO_local"
  "formatLocal jslib = formatLocal_en" "skippedDay jslib = (\<lambda>d. False)"
  "dayStart jslib = (\<lambda>d. 0)"
  by (simp_all add: jslib_def)

lemma apiaLib_sel:
  "parseFloat apiaLib = parseFloat_dec" "parseISO apiaLib = parseISO_local"
  "formatLocal apiaLib = formatLocal_en" "skippedDay apiaLib = (\<lambda>d. d = 15338)"
  "dayStart apiaLib = (\<lambda>d. 0)"
  by (simp_all add: apiaLib_def jslib_def)

lemma parseFloat_dec_values:
  "parseFloat_dec ''2500'' = Some 2500" "parseFloat_dec ''500'' = Some 500"
  "parseFloat_dec ''300'' = Some 300" "parseFloat_dec ''600'' = Some 600"
  "parseFloat_dec ''abc'' = None" "parseFloat_dec ''100'' = Some 100"
  "parseFloat_dec ''-50'' = Some (- 50)" "parseFloat_dec ''-100'' = Some (- 100)"
  "parseFloat_dec ''200'' = Some 200" "parseFloat_dec ''0'' = Some 0"
  "parseFloat_dec ''1000'' = Some 1000" "parseFloat_dec '''' = None"
  "parseFloat_dec ''-300'' = Some (- 300)" "parseFloat_dec ''3000'' = Some 3000"
  "parseFloat_dec ''1488.16'' = Some (37204 / 25)"
  "parseFloat_dec ''511.84'' = Some (12796 / 25)"
  by code_simp+

lemma parseISO_ymd_values:
  "parseISO_ymd ''2024-03-01'' = At 19783 0" "parseISO_ymd ''2024-03-02'' = At 19784 0"
  "parseISO_ymd ''2024-03-03'' = At 19785 0" "parseISO_ymd ''2024-03-05'' = At 19787 0"
  "parseISO_ymd ''2011-12-29'' = At 15337 0" "parseISO_ymd ''2011-12-31'' = At 15339 0"
  by code_simp+

lemma minuteOfDay_values:
  "minuteOfDay ''12:00'' = Some 720" "minuteOfDay ''06:00'' = Some 360"
  by code_simp+

lemma parseISO_local_values:
  "parseISO_local ''2024-03-01'' = At 19783 0" "parseISO_local ''2024-03-02'' = At 19784 0"
  "parseISO_local ''2024-03-03'' = At 19785 0" "parseISO_local ''2024-03-05'' = At 19787 0"
  "parseISO_local ''2011-12-29'' = At 15337 0" "parseISO_local ''2011-12-31'' = At 15339 0"
  "parseISO_local ''2024-03-01T12:00'' = At 19783 43200000"
  "parseISO_local ''2024-03-02T06:00'' = At 19784 21600000"
  by (simp_all add: parseISO_local_def parseISO_ymd_values minuteOfDay_values)

lemma formatLocal_en_keys:
  "formatLocal_en 19783 0 ''yyyy-MM-dd'' = ''2024-03-01''"
  "formatLocal_en 19784 0 ''yyyy-MM-dd'' = ''2024-03-02''"
  "formatLocal_en 19785 0 ''yyyy-MM-dd'' = ''2024-03-03''"
  "formatLocal_en 19786 0 ''yyyy-MM-dd'' = ''2024-03-04''"
  "formatLocal_en 19787 0 ''yyyy-MM-dd'' = ''2024-03-05''"
  "formatLocal_en 15337 0 ''yyyy-MM-dd'' = ''2011-12-29''"
  "formatLocal_en 15339 0 ''yyyy-MM-dd'' = ''2011-12-31''"
  by code_simp+

lemma formatLocal_en_long:
  "formatLocal_en 19783 0 ''MMMM d, yyyy'' = ''March 1, 2024''"
  "formatLocal_en 19784 0 ''MMMM d, yyyy'' = ''March 2, 2024''"
  "formatLocal_en 19785 0 ''MMMM d, yyyy'' = ''March 3, 2024''"
  "formatLocal_en 19786 0 ''MMMM d, yyyy'' = ''March 4, 2024''"
  "formatLocal_en 19787 0 ''MMMM d, yyyy'' = ''March 5, 2024''"
  "formatLocal_en 15337 0 ''MMMM d, yyyy'' = ''December 29, 2011''"
  "formatLocal_en 15339 0 ''MMMM d, yyyy'' = ''December 31, 2011''"
  by code_simp+

lemma formatLocal_en_weekdays:
  "formatLocal_en 19783 0 ''EEEE'' = ''Friday''"
  "formatLocal_en 19784 0 ''EEEE'' = ''Saturday''"
  "formatLocal_en 19785 0 ''EEEE'' = ''Sunday''"
  "formatLocal_en 19786 0 ''EEEE'' = ''Monday''"
  "formatLocal_en 19787 0 ''EEEE'' = ''Tuesday''"
  "formatLocal_en 15337 0 ''EEEE'' = ''Thursday''"
  "formatLocal_en 15339 0 ''EEEE'' = ''Saturday''"
  by code_simp+

lemma later_days:
  "[19784..19787::int] = [19784, 19785, 19786, 19787]" "[19784..19783::int] = []"
  "[19784..19784::int] = [19784]" "[19784..19785::int] = [19784, 19785]"
  "[15338..15339::int] = [15338, 15339]"
  by code_simp+

lemmas scenario_simps =
  calculations_def jslib_sel parseFloat_dec_values parseISO_local_values formatLocal_en_keys
  formatLocal_en_long formatLocal_en_weekdays later_days totalSavings_def orZero_def
  divide_num_def bindE_def dayStep_def sumUpToToday_def isToday_def clock_def Let_def

lemma marchPlan_ledger: "calculations jslib marchPlan clock = Inr marchLedger"
  by (simp add: scenario_simps marchPlan_def marchLedger_def)

lemma negativeGoalPlan_ledger: "calculations jslib negativeGoalPlan clock = Inr negativeGoalLedger"
  by (simp add: scenario_simps negativeGoalPlan_def negativeGoalLedger_def)

lemma negativeTotalPlan_ledger:
  "calculations jslib negativeTotalPlan clock = Inr negativeTotalLedger"
  by (simp add: scenario_simps negativeTotalPlan_def negativeTotalLedger_def)

lemma zeroTotalNegativeGoalPlan_ledger:
  "calculations jslib zeroTotalNegativeGoalPlan clock = Inr zeroTotalNegativeGoalLedger"
  by (simp add: scenario_simps zeroTotalNegativeGoalPlan_def zeroTotalNegativeGoalLedger_def)

lemma negativeBothPlan_ledger: "calculations jslib negativeBothPlan clock = Inr negativeBothLedger"
  by (simp add: scenario_simps negativeBothPlan_def negativeBothLedger_def)

lemma zeroTotalPlan_ledger: "calculations jslib zeroTotalPlan clock = Inr zeroTotalLedger"
  by (simp add: scenario_simps zeroTotalPlan_def zeroTotalLedger_def)

lemma reversedPlan_ledger: "calculations jslib reversedPlan clock = Inr reversedLedger"
  by (simp add: scenario_simps reversedPlan_def reversedLedger_def)

lemma partDayPlan_ledger: "calculations jslib partDayPlan clock = Inr partDayLedger"
  by (simp add: scenario_simps partDayPlan_def partDayLedger_def)

lemma apiaPlan_ledger: "calculations apiaLib apiaPlan clock = Inr apiaLedger"
  by (simp add: scenario_simps apiaLib_sel apiaPlan_def apiaLedger_def)

text \<open>
  The roundings that the ledger of \<open>roundingPlan\<close> goes through in double precision, each
  at the exact value of the operation that is rounded.
\<close>

lemma binary64_values:
  "binary64 0 = 0" "binary64 1 = 1" "binary64 100 = 100" "binary64 1000 = 1000"
  "binary64 3000 = 3000"
  "binary64 (37204 / 25) = 6544996895964529 / 4398046511104"
  "binary64 (12796 / 25) = 9004384504973885 / 17592186044416"
  "binary64 (- (2146950384860529 / 4398046511104)) = - (2146950384860529 / 4398046511104)"
  "binary64 (2251096126243471 / 4398046511104) = 2251096126243471 / 4398046511104"
  "binary64 (- (1 / 17592186044416)) = - (1 / 17592186044416)"
  "binary64 (17592186044415999 / 17592186044416) = 1000"
  "binary64 (6544996895964529 / 4398046511104) = 6544996895964529 / 4398046511104"
  "binary64 (35184372088832001 / 17592186044416) = 2000"
  by code_simp+

lemmas scenarioR_simps =
  calculationsR_def jslib_sel parseFloat_dec_values parseISO_local_values formatLocal_en_keys
  formatLocal_en_long formatLocal_en_weekdays later_days totalSavingsR_def orZero_def
  divide_num_def bindE_def dayStepR_def sumUpToTodayR_def isToday_def clock_def Let_def
  binary64_values

lemma roundingPlan_ledger: "calculationsR binary64 jslib roundingPlan clock = Inr roundingLedger"
  by (simp add: scenarioR_simps roundingPlan_def roundingLedger_def)


section \<open>The claims\<close>

lemma available_eq:
  assumes "calculations lib st now = Inr L"
  shows "available L = availableOf lib st"
proof (cases "isValidRange L")
  case True
  from valid_ledger(2) [OF assms True] show ?thesis .
next
  case False
  let ?bad = "\<not> isValid (parseISO lib (startDate st)) \<or> \<not> isValid (parseISO lib (endDate st))
           \<or> date_gt (parseISO lib (startDate st)) (parseISO lib (endDate st))"
  have ?bad
  proof (rule ccontr)
    assume "\<not> ?bad"
    then obtain sd stt ed et where "parseISO lib (startDate st) = At sd stt"
        "parseISO lib (endDate st) = At ed et" "\<not> date_gt (At sd stt) (At ed et)"
      by (cases "parseISO lib (startDate st)"; cases "parseISO lib (endDate st)") auto
    from calculations_valid [OF this] assms have "isValidRange L" by auto
    with False show False ..
  qed
  from calculations_invalid [OF this, of now] assms show ?thesis by auto
qed

lemma availableOf_nonneg: "0 \<le> availableOf lib st"
  by (simp add: availableOf_def)

text \<open>
  The count of days and the day sequence of any range that \<^verbatim>\<open>calculations\<close> takes as
  valid. The two can differ. When the end falls on a later day but at an earlier time of
  day than the start, the last day is not full: \<^verbatim>\<open>differenceInDays\<close> leaves it out of
  \<open>daysCount\<close>, while \<^verbatim>\<open>eachDayOfInterval\<close> still emits it. And a day that the zone skips
  counts in \<open>daysCount\<close>, while \<^verbatim>\<open>eachDayOfInterval\<close> has no date to emit for it. For
  calendar dates, which are parsed to the start of their day, in a zone that skips none of
  the days, the two agree.
\<close>

lemma checked_range:
  assumes s: "parseISO lib (startDate st) = At sd stt"
    and e: "parseISO lib (endDate st) = At ed et"
    and ord: "\<not> date_gt (At sd stt) (At ed et)"
  shows "\<exists>L. calculations lib st now = Inr L \<and> isValidRange L
           \<and> daysCount L = differenceInDays lib (At ed et) (At sd stt) + 1
           \<and> eachDayOfInterval lib (At sd stt) (At ed et) = Inr (map date (days L))"
proof -
  from calculations_valid [OF s e ord] obtain ds where
    "\<forall>now. calculations lib st now =
           Inr \<lparr>daysCount = differenceInDays lib (At ed et) (At sd stt) + 1,
                available = availableOf lib st,
                dailyAllowance =
                  availableOf lib st / of_int (differenceInDays lib (At ed et) (At sd stt) + 1),
                days = ds, isValidRange = True,
                totalSpent = sum_list (map spent ds),
                totalRemaining = availableOf lib st - sum_list (map spent ds),
                spentPercentage =
                  (if 0 < availableOf lib st
                   then min 100 (sum_list (map spent ds) / availableOf lib st * 100) else 0),
                spentUpToToday = Some (sumUpToToday lib now ds)\<rparr>"
    and "eachDayOfInterval lib (At sd stt) (At ed et) = Inr (map date ds)"
    by blast
  then show ?thesis
    by (simp del: differenceInDays.simps eachDayOfInterval.simps)
qed

lemma calendar_range:
  assumes s: "parseISO lib (startDate st) = At sd (dayStart lib sd)"
    and e: "parseISO lib (endDate st) = At ed (dayStart lib ed)"
    and le: "sd \<le> ed"
    and ex: "\<forall>d \<in> {sd..ed}. \<not> skippedDay lib d"
  shows "\<exists>L. calculations lib st now = Inr L \<and> isValidRange L \<and> daysCount L = ed - sd + 1
           \<and> map date (days L) = map (\<lambda>d. At d (dayStart lib d)) [sd..ed]"
proof -
  from le have ord: "\<not> date_gt (At sd (dayStart lib sd)) (At ed (dayStart lib ed))"
    by auto
  from checked_range [OF s e ord, of now] obtain L where
    L: "calculations lib st now = Inr L" "isValidRange L"
      "daysCount L
        = differenceInDays lib (At ed (dayStart lib ed)) (At sd (dayStart lib sd)) + 1"
      "eachDayOfInterval lib (At sd (dayStart lib sd)) (At ed (dayStart lib ed))
        = Inr (map date (days L))"
    by blast
  from L(3) have count: "daysCount L = ed - sd + 1"
    by (simp only: differenceInDays_calendar [OF le])
  from L(4) have dates: "map date (days L) = map (\<lambda>d. At d (dayStart lib d)) [sd..ed]"
    by (simp only: eachDayOfInterval_calendar [OF le ex] sum.inject)
  from L(1,2) count dates show ?thesis by blast
qed

text \<open>
  C1. For every valid date range the day entries satisfy the carryover recurrence: the
  first day's allowance is the base daily share (\<open>available / daysCount\<close>, the carryover
  being 0), the allowance of every later day is the base daily share plus the remaining
  of the day before, and the remaining of each day is its allowance minus its spent.
\<close>

theorem carryover_recurrence:
  assumes "calculations lib st now = Inr L" and "isValidRange L"
  shows "days L \<noteq> []
       \<and> dailyAllowance L = available L / of_int (daysCount L)
       \<and> allowance (days L ! 0) = dailyAllowance L
       \<and> (\<forall>i. 0 < i \<and> i < length (days L) \<longrightarrow>
             allowance (days L ! i) = dailyAllowance L + remaining (days L ! (i - 1)))
       \<and> (\<forall>i < length (days L).
             remaining (days L ! i) = allowance (days L ! i) - spent (days L ! i))"
proof -
  note f = valid_ledger [OF assms]
  have first: "allowance (days L ! 0) = dailyAllowance L"
    using carried_first [OF f(5) f(4)] by simp
  have later: "allowance (days L ! i) = dailyAllowance L + remaining (days L ! (i - 1))"
    if "0 < i" "i < length (days L)" for i
  proof -
    from that obtain j where "i = Suc j" by (cases i) auto
    with that carried_next [OF f(5), of j] show ?thesis by simp
  qed
  have rem: "remaining (days L ! i) = allowance (days L ! i) - spent (days L ! i)"
    if "i < length (days L)" for i
    using carried_remaining [OF f(5) that] .
  from f(4) f(3) first later rem show ?thesis by blast
qed

theorem carryover_recurrence_witness:
  "calculations jslib marchPlan clock = Inr marchLedger \<and> isValidRange marchLedger
   \<and> allowance (days marchLedger ! 0) = dailyAllowance marchLedger
   \<and> allowance (days marchLedger ! 1)
       = dailyAllowance marchLedger + remaining (days marchLedger ! 0)
   \<and> allowance (days marchLedger ! 2)
       = dailyAllowance marchLedger + remaining (days marchLedger ! 1)
   \<and> remaining (days marchLedger ! 1)
       = allowance (days marchLedger ! 1) - spent (days marchLedger ! 1)
   \<and> dailyAllowance marchLedger = 400 \<and> remaining (days marchLedger ! 1) = - 100"
proof -
  have v: "isValidRange marchLedger" by (simp add: marchLedger_def)
  note r = carryover_recurrence [OF marchPlan_ledger v]
  have len: "length (days marchLedger) = 5" by (simp add: marchLedger_def)
  from r have a0: "allowance (days marchLedger ! 0) = dailyAllowance marchLedger" by blast
  from r have later: "\<And>i. 0 < i \<Longrightarrow> i < length (days marchLedger) \<Longrightarrow>
      allowance (days marchLedger ! i)
      = dailyAllowance marchLedger + remaining (days marchLedger ! (i - 1))"
    by blast
  from r have rem: "\<And>i. i < length (days marchLedger) \<Longrightarrow>
      remaining (days marchLedger ! i)
      = allowance (days marchLedger ! i) - spent (days marchLedger ! i)"
    by blast
  have a1: "allowance (days marchLedger ! 1)
      = dailyAllowance marchLedger + remaining (days marchLedger ! 0)"
    using later [of 1] len by simp
  have a2: "allowance (days marchLedger ! 2)
      = dailyAllowance marchLedger + remaining (days marchLedger ! 1)"
    using later [of 2] len by simp
  have r1: "remaining (days marchLedger ! 1)
      = allowance (days marchLedger ! 1) - spent (days marchLedger ! 1)"
    using rem [of 1] len by simp
  have vals: "dailyAllowance marchLedger = 400" "remaining (days marchLedger ! 1) = - 100"
    by (simp_all add: marchLedger_def)
  show ?thesis
    by (intro conjI marchPlan_ledger v a0 a1 a2 r1 vals)
qed

text \<open>
  C2. For every day of a valid range: the entry carries the key of its own date; if the
  expense map has no entry for that key, or the empty string, the day's spent is its
  allowance; if a non-empty text is recorded, spent is the number \<^verbatim>\<open>parseFloat\<close> reads from
  it, and 0 when it reads none.
\<close>

theorem default_spend_policy:
  assumes "calculations lib st now = Inr L" and "isValidRange L" and "e \<in> set (days L)"
  shows "format lib (date e) ''yyyy-MM-dd'' = Inr (dateKey e)
       \<and> (expenses st (dateKey e) = None \<or> expenses st (dateKey e) = Some ''''
            \<longrightarrow> spent e = allowance e)
       \<and> (\<forall>s. expenses st (dateKey e) = Some s \<and> s \<noteq> ''''
            \<longrightarrow> spent e = (case parseFloat lib s of None \<Rightarrow> 0 | Some v \<Rightarrow> v))"
proof -
  from valid_ledger(6) [OF assms(1,2)] assms(3) have "spentRule lib (expenses st) e"
    by blast
  then show ?thesis
    by (cases "expenses st (dateKey e)") (auto simp: spentRule_def)
qed

theorem default_spend_policy_witness:
  "calculations jslib marchPlan clock = Inr marchLedger \<and> isValidRange marchLedger
   \<and> dateKey (days marchLedger ! 2) = ''2024-03-03''
   \<and> expenses marchPlan ''2024-03-03'' = None
   \<and> spent (days marchLedger ! 2) = allowance (days marchLedger ! 2)
   \<and> dateKey (days marchLedger ! 3) = ''2024-03-04''
   \<and> expenses marchPlan ''2024-03-04'' = Some ''''
   \<and> spent (days marchLedger ! 3) = allowance (days marchLedger ! 3)
   \<and> dateKey (days marchLedger ! 0) = ''2024-03-01''
   \<and> expenses marchPlan ''2024-03-01'' = Some ''300''
   \<and> spent (days marchLedger ! 0) = (case parseFloat jslib ''300'' of None \<Rightarrow> 0 | Some v \<Rightarrow> v)
   \<and> dateKey (days marchLedger ! 4) = ''2024-03-05''
   \<and> expenses marchPlan ''2024-03-05'' = Some ''abc''
   \<and> spent (days marchLedger ! 4) = (case parseFloat jslib ''abc'' of None \<Rightarrow> 0 | Some v \<Rightarrow> v)
   \<and> parseFloat jslib ''300'' = Some 300 \<and> parseFloat jslib ''abc'' = None"
proof -
  have v: "isValidRange marchLedger" by (simp add: marchLedger_def)
  have mem: "days marchLedger ! 0 \<in> set (days marchLedger)"
      "days marchLedger ! 2 \<in> set (days marchLedger)"
      "days marchLedger ! 3 \<in> set (days marchLedger)"
      "days marchLedger ! 4 \<in> set (days marchLedger)"
    by (simp_all add: marchLedger_def)
  have keys: "dateKey (days marchLedger ! 0) = ''2024-03-01''"
      "dateKey (days marchLedger ! 2) = ''2024-03-03''"
      "dateKey (days marchLedger ! 3) = ''2024-03-04''"
      "dateKey (days marchLedger ! 4) = ''2024-03-05''"
    by (simp_all add: marchLedger_def)
  have exps: "expenses marchPlan ''2024-03-01'' = Some ''300''"
      "expenses marchPlan ''2024-03-03'' = None"
      "expenses marchPlan ''2024-03-04'' = Some ''''"
      "expenses marchPlan ''2024-03-05'' = Some ''abc''"
    by (simp_all add: marchPlan_def)
  note p = default_spend_policy [OF marchPlan_ledger v]
  have s2: "spent (days marchLedger ! 2) = allowance (days marchLedger ! 2)"
    using p [OF mem(2)] by (simp add: keys exps)
  have s3: "spent (days marchLedger ! 3) = allowance (days marchLedger ! 3)"
    using p [OF mem(3)] by (simp add: keys exps)
  have s0: "spent (days marchLedger ! 0)
      = (case parseFloat jslib ''300'' of None \<Rightarrow> 0 | Some v \<Rightarrow> v)"
    using p [OF mem(1)] by (simp add: keys exps)
  have s4: "spent (days marchLedger ! 4)
      = (case parseFloat jslib ''abc'' of None \<Rightarrow> 0 | Some v \<Rightarrow> v)"
    using p [OF mem(4)] by (simp add: keys exps)
  have pf: "parseFloat jslib ''300'' = Some 300" "parseFloat jslib ''abc'' = None"
    by (simp_all add: jslib_sel parseFloat_dec_values)
  show ?thesis
    by (intro conjI marchPlan_ledger v keys exps s0 s2 s3 s4 pf)
qed

text \<open>
  C4. For every total amount and every sequence of savings goals, \<open>available\<close> is
  \<open>max 0 (total - sum of the goal amounts)\<close>, each amount read by \<^verbatim>\<open>parseFloat(...) || 0\<close>,
  and so it is never negative.
\<close>

theorem available_clamped:
  "\<exists>L. calculations lib st now = Inr L
      \<and> available L =
          max 0 (orZero (parseFloat lib (totalAmount st))
                 - sum_list (map (\<lambda>g. orZero (parseFloat lib (amount g))) (savingsGoals st)))
      \<and> 0 \<le> available L"
proof -
  from calculations_total obtain L where L: "calculations lib st now = Inr L"
    by blast
  from available_eq [OF L] have "available L = availableOf lib st" .
  with L show ?thesis
    by (auto simp: availableOf_def totalSavings_sum)
qed

theorem available_clamped_witness:
  "calculations jslib negativeTotalPlan clock = Inr negativeTotalLedger
   \<and> available negativeTotalLedger =
       max 0 (orZero (parseFloat jslib (totalAmount negativeTotalPlan))
              - sum_list (map (\<lambda>g. orZero (parseFloat jslib (amount g)))
                            (savingsGoals negativeTotalPlan)))
   \<and> 0 \<le> available negativeTotalLedger
   \<and> orZero (parseFloat jslib (totalAmount negativeTotalPlan)) = - 100
   \<and> sum_list (map (\<lambda>g. orZero (parseFloat jslib (amount g)))
                  (savingsGoals negativeTotalPlan)) = 200"
proof -
  from available_clamped [of jslib negativeTotalPlan clock]
  have "available negativeTotalLedger =
       max 0 (orZero (parseFloat jslib (totalAmount negativeTotalPlan))
              - sum_list (map (\<lambda>g. orZero (parseFloat jslib (amount g)))
                            (savingsGoals negativeTotalPlan)))
     \<and> 0 \<le> available negativeTotalLedger"
    by (simp add: negativeTotalPlan_ledger)
  moreover have "orZero (parseFloat jslib (totalAmount negativeTotalPlan)) = - 100"
    "sum_list (map (\<lambda>g. orZero (parseFloat jslib (amount g)))
                  (savingsGoals negativeTotalPlan)) = 200"
    by (simp_all add: negativeTotalPlan_def jslib_sel parseFloat_dec_values orZero_def)
  ultimately show ?thesis
    using negativeTotalPlan_ledger by blast
qed

text \<open>
  C7. For every valid range of calendar dates in which the time zone skips no day (both
  dates parsed to the start of their local day, the start not after the end),
  \<open>daysCount\<close> is the inclusive count of days from start to end, so 1 for a single day; the
  day sequence has exactly \<open>daysCount\<close> entries; and its entries are the days of the range
  in ascending order, one per day, each at the start of its day.
\<close>

theorem day_sequence:
  assumes "parseISO lib (startDate st) = At sd (dayStart lib sd)"
    and "parseISO lib (endDate st) = At ed (dayStart lib ed)"
    and "sd \<le> ed"
    and "\<forall>d \<in> {sd..ed}. \<not> skippedDay lib d"
  shows "\<exists>L. calculations lib st now = Inr L \<and> isValidRange L
           \<and> daysCount L = ed - sd + 1
           \<and> int (length (days L)) = daysCount L
           \<and> (\<forall>i < length (days L).
                 date (days L ! i) = At (sd + int i) (dayStart lib (sd + int i)))
           \<and> (sd = ed \<longrightarrow> daysCount L = 1 \<and> length (days L) = 1)"
proof -
  from calendar_range [OF assms] obtain L where
    L: "calculations lib st now = Inr L" "isValidRange L" "daysCount L = ed - sd + 1"
      "map date (days L) = map (\<lambda>d. At d (dayStart lib d)) [sd..ed]"
    by blast
  have "length (map date (days L)) = length (map (\<lambda>d. At d (dayStart lib d)) [sd..ed])"
    by (simp only: L(4))
  with assms(3) have len: "int (length (days L)) = ed - sd + 1"
    by simp
  have nth: "date (days L ! i) = At (sd + int i) (dayStart lib (sd + int i))"
    if i: "i < length (days L)" for i
  proof -
    from i have "date (days L ! i) = map date (days L) ! i" by simp
    also have "\<dots> = map (\<lambda>d. At d (dayStart lib d)) [sd..ed] ! i" by (simp only: L(4))
    also have "\<dots> = At ([sd..ed] ! i) (dayStart lib ([sd..ed] ! i))"
    proof (rule nth_map)
      from i len show "i < length [sd..ed]" by simp
    qed
    also have "[sd..ed] ! i = sd + int i"
    proof (rule nth_upto)
      from i len show "sd + int i \<le> ed" by linarith
    qed
    finally show ?thesis .
  qed
  from len L(3) have single: "sd = ed \<longrightarrow> daysCount L = 1 \<and> length (days L) = 1"
    by auto
  from L(1,2,3) len nth single show ?thesis
    by (intro exI [of _ L]) simp
qed

theorem day_sequence_witness:
  "parseISO jslib (startDate marchPlan) = At 19783 (dayStart jslib 19783)
   \<and> parseISO jslib (endDate marchPlan) = At 19787 (dayStart jslib 19787)
   \<and> (19783::int) \<le> 19787 \<and> skippedDay jslib = (\<lambda>d. False)
   \<and> calculations jslib marchPlan clock = Inr marchLedger
   \<and> daysCount marchLedger = 19787 - 19783 + 1
   \<and> int (length (days marchLedger)) = daysCount marchLedger
   \<and> date (days marchLedger ! 0) = At (19783 + int 0) (dayStart jslib (19783 + int 0))
   \<and> date (days marchLedger ! 4) = At (19783 + int 4) (dayStart jslib (19783 + int 4))"
proof -
  have s: "parseISO jslib (startDate marchPlan) = At 19783 (dayStart jslib 19783)"
    and e: "parseISO jslib (endDate marchPlan) = At 19787 (dayStart jslib 19787)"
    by (simp_all add: marchPlan_def jslib_sel parseISO_local_values)
  have le: "(19783::int) \<le> 19787" by simp
  have ex: "\<forall>d \<in> {19783..19787}. \<not> skippedDay jslib d"
    by (simp add: jslib_sel)
  from day_sequence [OF s e le ex, of clock]
  have seq: "daysCount marchLedger = 19787 - 19783 + 1"
      "int (length (days marchLedger)) = daysCount marchLedger"
      "\<And>i. i < length (days marchLedger) \<Longrightarrow>
          date (days marchLedger ! i) = At (19783 + int i) (dayStart jslib (19783 + int i))"
    by (auto simp: marchPlan_ledger)
  have len: "length (days marchLedger) = 5" by (simp add: marchLedger_def)
  have d0: "date (days marchLedger ! 0) = At (19783 + int 0) (dayStart jslib (19783 + int 0))"
    using seq(3) [of 0] len by simp
  have d4: "date (days marchLedger ! 4) = At (19783 + int 4) (dayStart jslib (19783 + int 4))"
    using seq(3) [of 4] len by simp
  show ?thesis
    by (intro conjI s e le jslib_sel(4) marchPlan_ledger seq(1,2) d0 d4)
qed

text \<open>
  Two ranges that \<^verbatim>\<open>calculations\<close> takes as valid and whose day sequence is longer or
  shorter than \<open>daysCount\<close>. From noon of 1 March 2024 to six in the morning of 2 March,
  \<open>daysCount\<close> is 1 and two days are emitted. From 29 to 31 December 2011 in a zone
  without 30 December, \<open>daysCount\<close> is 3 and two days are emitted.
\<close>

theorem day_count_counterexample:
  "calculations jslib partDayPlan clock = Inr partDayLedger \<and> isValidRange partDayLedger
   \<and> daysCount partDayLedger = 1 \<and> length (days partDayLedger) = 2
   \<and> parseISO apiaLib (startDate apiaPlan) = At 15337 0
   \<and> parseISO apiaLib (endDate apiaPlan) = At 15339 0
   \<and> calculations apiaLib apiaPlan clock = Inr apiaLedger \<and> isValidRange apiaLedger
   \<and> daysCount apiaLedger = 3 \<and> length (days apiaLedger) = 2"
proof -
  have part: "isValidRange partDayLedger" "daysCount partDayLedger = 1"
      "length (days partDayLedger) = 2"
    by (simp_all add: partDayLedger_def)
  have parse: "parseISO apiaLib (startDate apiaPlan) = At 15337 0"
      "parseISO apiaLib (endDate apiaPlan) = At 15339 0"
    by (simp_all add: apiaPlan_def apiaLib_sel parseISO_local_values)
  have apia: "isValidRange apiaLedger" "daysCount apiaLedger = 3"
      "length (days apiaLedger) = 2"
    by (simp_all add: apiaLedger_def)
  show ?thesis
    by (intro conjI partDayPlan_ledger part parse apiaPlan_ledger apia)
qed

text \<open>
  C8. For every valid range and every clock reading, \<open>spentUpToToday\<close> is the sum of \<open>spent\<close>
  over exactly the emitted days whose calendar day is on or before the day of the clock
  reading; the time of day of the reading does not change the ledger.
\<close>

theorem spent_up_to_today:
  assumes "calculations lib st (At dn t) = Inr L" and "isValidRange L"
  shows "(\<forall>e \<in> set (days L). isValid (date e))
       \<and> spentUpToToday L
           = Some (sum_list (map spent (filter (\<lambda>e. dayOf (date e) \<le> dn) (days L))))
       \<and> (\<forall>t'. calculations lib st (At dn t') = Inr L)"
proof -
  note f = valid_ledger [OF assms]
  have sum: "sumUpToToday lib (At dn u) (days L)
      = sum_list (map spent (filter (\<lambda>e. dayOf (date e) \<le> dn) (days L)))" for u
    by (rule sumUpToToday_eq [OF f(7)])
  have today: "spentUpToToday L
      = Some (sum_list (map spent (filter (\<lambda>e. dayOf (date e) \<le> dn) (days L))))"
    by (simp only: f(10) sum)
  have "calculations lib st (At dn t') = Inr L" for t'
  proof -
    from f(11) have "calculations lib st (At dn t')
        = Inr (L\<lparr>spentUpToToday := Some (sumUpToToday lib (At dn t') (days L))\<rparr>)"
      by blast
    also have "L\<lparr>spentUpToToday := Some (sumUpToToday lib (At dn t') (days L))\<rparr> = L"
      by (simp add: sum today)
    finally show ?thesis .
  qed
  with f(7) today show ?thesis by blast
qed

theorem spent_up_to_today_witness:
  "calculations jslib marchPlan (At 19785 52200000) = Inr marchLedger
   \<and> isValidRange marchLedger
   \<and> spentUpToToday marchLedger
       = Some (sum_list (map spent (filter (\<lambda>e. dayOf (date e) \<le> 19785) (days marchLedger))))
   \<and> sum_list (map spent (filter (\<lambda>e. dayOf (date e) \<le> 19785) (days marchLedger))) = 1200
   \<and> calculations jslib marchPlan (At 19785 0) = Inr marchLedger"
proof -
  have run: "calculations jslib marchPlan (At 19785 52200000) = Inr marchLedger"
    using marchPlan_ledger by (simp add: clock_def)
  have v: "isValidRange marchLedger" by (simp add: marchLedger_def)
  note r = spent_up_to_today [OF run v]
  from r have today: "spentUpToToday marchLedger
       = Some (sum_list (map spent (filter (\<lambda>e. dayOf (date e) \<le> 19785) (days marchLedger))))"
    by blast
  from r have midnight: "calculations jslib marchPlan (At 19785 0) = Inr marchLedger"
    by blast
  have total: "sum_list (map spent (filter (\<lambda>e. dayOf (date e) \<le> 19785) (days marchLedger)))
      = 1200"
    by (simp add: marchLedger_def)
  show ?thesis
    by (intro conjI run v today total midnight)
qed

text \<open>
  C9. In exact arithmetic, for every valid range and every day with a successor: if the
  day's spent exceeds its allowance, the allowance of the next day is strictly less than
  the base daily share, and less by exactly the overspend (spent minus allowance).
\<close>

theorem overspend_propagation:
  assumes "calculations lib st now = Inr L" and "isValidRange L"
    and "Suc i < length (days L)" and "allowance (days L ! i) < spent (days L ! i)"
  shows "allowance (days L ! Suc i) < dailyAllowance L
       \<and> dailyAllowance L - allowance (days L ! Suc i)
           = spent (days L ! i) - allowance (days L ! i)"
proof -
  note f = valid_ledger [OF assms(1,2)]
  from assms(3) have i: "i < length (days L)" by simp
  have nxt: "allowance (days L ! Suc i) = dailyAllowance L + remaining (days L ! i)"
    by (rule carried_next [OF f(5) assms(3)])
  have rem: "remaining (days L ! i) = allowance (days L ! i) - spent (days L ! i)"
    by (rule carried_remaining [OF f(5) i])
  from assms(4) show ?thesis
    unfolding nxt rem by simp
qed

theorem overspend_propagation_witness:
  "calculations jslib marchPlan clock = Inr marchLedger \<and> isValidRange marchLedger
   \<and> Suc 1 < length (days marchLedger)
   \<and> allowance (days marchLedger ! 1) < spent (days marchLedger ! 1)
   \<and> allowance (days marchLedger ! Suc 1) < dailyAllowance marchLedger
   \<and> dailyAllowance marchLedger - allowance (days marchLedger ! Suc 1)
       = spent (days marchLedger ! 1) - allowance (days marchLedger ! 1)
   \<and> spent (days marchLedger ! 1) - allowance (days marchLedger ! 1) = 100"
proof -
  have v: "isValidRange marchLedger" by (simp add: marchLedger_def)
  have len: "Suc 1 < length (days marchLedger)" by (simp add: marchLedger_def)
  have over: "allowance (days marchLedger ! 1) < spent (days marchLedger ! 1)"
    by (simp add: marchLedger_def)
  have amount: "spent (days marchLedger ! 1) - allowance (days marchLedger ! 1) = 100"
    by (simp add: marchLedger_def)
  note r = overspend_propagation [OF marchPlan_ledger v len over]
  show ?thesis
    by (intro conjI marchPlan_ledger v len over conjunct1 [OF r] conjunct2 [OF r] amount)
qed

text \<open>
  In double precision the same fails. With 3000 over three days and expenses of
  \<^verbatim>\<open>1488.16\<close> and \<^verbatim>\<open>511.84\<close>, the second day's allowance is the double just below 511.84 and
  its spent the double nearest to 511.84, which is larger; the overspend is lost when it is
  added to 1000, and the third day's allowance is the base daily share itself.
\<close>

theorem rounded_overspend_counterexample:
  "calculationsR binary64 jslib roundingPlan clock = Inr roundingLedger
   \<and> isValidRange roundingLedger \<and> Suc 1 < length (days roundingLedger)
   \<and> allowance (days roundingLedger ! 1) < spent (days roundingLedger ! 1)
   \<and> allowance (days roundingLedger ! Suc 1) = dailyAllowance roundingLedger
   \<and> \<not> allowance (days roundingLedger ! Suc 1) < dailyAllowance roundingLedger
   \<and> dailyAllowance roundingLedger - allowance (days roundingLedger ! Suc 1)
       \<noteq> spent (days roundingLedger ! 1) - allowance (days roundingLedger ! 1)"
proof -
  have facts: "isValidRange roundingLedger" "Suc 1 < length (days roundingLedger)"
      "allowance (days roundingLedger ! 1) < spent (days roundingLedger ! 1)"
      "allowance (days roundingLedger ! Suc 1) = dailyAllowance roundingLedger"
      "\<not> allowance (days roundingLedger ! Suc 1) < dailyAllowance roundingLedger"
      "dailyAllowance roundingLedger - allowance (days roundingLedger ! Suc 1)
       \<noteq> spent (days roundingLedger ! 1) - allowance (days roundingLedger ! 1)"
    by (simp_all add: roundingLedger_def)
  show ?thesis
    by (intro conjI roundingPlan_ledger facts)
qed

text \<open>
  C10. For every valid range of calendar dates in which the time zone skips no day
  (such a range is never empty), in exact arithmetic the remaining of the last emitted
  day is \<open>totalRemaining\<close>, that is \<open>available - totalSpent\<close>: the carryover chain
  telescopes.
\<close>

theorem last_remaining_is_total_remaining:
  assumes "parseISO lib (startDate st) = At sd (dayStart lib sd)"
    and "parseISO lib (endDate st) = At ed (dayStart lib ed)"
    and "sd \<le> ed"
    and "\<forall>d \<in> {sd..ed}. \<not> skippedDay lib d"
  shows "\<exists>L. calculations lib st now = Inr L \<and> isValidRange L \<and> days L \<noteq> []
           \<and> totalRemaining L = available L - totalSpent L
           \<and> remaining (last (days L)) = totalRemaining L"
proof -
  from calendar_range [OF assms] obtain L where
    L: "calculations lib st now = Inr L" "isValidRange L" "daysCount L = ed - sd + 1"
      "map date (days L) = map (\<lambda>d. At d (dayStart lib d)) [sd..ed]"
    by blast
  note f = valid_ledger [OF L(1,2)]
  have "length (map date (days L)) = length (map (\<lambda>d. At d (dayStart lib d)) [sd..ed])"
    by (simp only: L(4))
  with assms(3) L(3) have "int (length (days L)) = daysCount L"
    by simp
  then have n: "(of_nat (length (days L)) :: rat) = of_int (daysCount L)"
    by (metis of_int_of_nat_eq)
  from f(1) have nz: "(of_int (daysCount L) :: rat) \<noteq> 0" by simp
  have share: "of_nat (length (days L)) * dailyAllowance L = available L"
    unfolding n f(3) using nz by simp
  have "totalSpent L = of_nat (length (days L)) * dailyAllowance L + 0
      - lastCarry 0 (days L)"
    unfolding f(8) by (rule carried_sum [OF f(5)])
  also have "\<dots> = available L - remaining (last (days L))"
    using f(4) by (simp add: share lastCarry_def)
  finally have "remaining (last (days L)) = available L - totalSpent L"
    by simp
  with f(9) have "remaining (last (days L)) = totalRemaining L" by simp
  with L(1,2) f(4) f(9) show ?thesis by blast
qed

theorem last_remaining_is_total_remaining_witness:
  "parseISO jslib (startDate marchPlan) = At 19783 (dayStart jslib 19783)
   \<and> parseISO jslib (endDate marchPlan) = At 19787 (dayStart jslib 19787)
   \<and> (19783::int) \<le> 19787 \<and> skippedDay jslib = (\<lambda>d. False)
   \<and> calculations jslib marchPlan clock = Inr marchLedger
   \<and> totalRemaining marchLedger = available marchLedger - totalSpent marchLedger
   \<and> remaining (last (days marchLedger)) = totalRemaining marchLedger
   \<and> totalRemaining marchLedger = 400"
proof -
  have s: "parseISO jslib (startDate marchPlan) = At 19783 (dayStart jslib 19783)"
    and e: "parseISO jslib (endDate marchPlan) = At 19787 (dayStart jslib 19787)"
    by (simp_all add: marchPlan_def jslib_sel parseISO_local_values)
  have le: "(19783::int) \<le> 19787" by simp
  have ex: "\<forall>d \<in> {19783..19787}. \<not> skippedDay jslib d"
    by (simp add: jslib_sel)
  from last_remaining_is_total_remaining [OF s e le ex, of clock]
  have r: "totalRemaining marchLedger = available marchLedger - totalSpent marchLedger"
      "remaining (last (days marchLedger)) = totalRemaining marchLedger"
    by (auto simp: marchPlan_ledger)
  have val: "totalRemaining marchLedger = 400" by (simp add: marchLedger_def)
  show ?thesis
    by (intro conjI s e le jslib_sel(4) marchPlan_ledger r val)
qed

text \<open>
  In the two ranges whose day sequence does not have \<open>daysCount\<close> entries, the remaining
  of the last day is not \<open>totalRemaining\<close>, in exact arithmetic. From noon of 1 March 2024
  to six in the morning of 2 March, with 300 available, each of the two days spends 300:
  the last remaining is 0 and \<open>totalRemaining\<close> is \<open>- 300\<close>. From 29 to 31 December 2011 in
  a zone without 30 December, each of the two days spends 100 of 300: the last remaining
  is 0 and \<open>totalRemaining\<close> is 100.
\<close>

theorem last_remaining_counterexample:
  "calculations jslib partDayPlan clock = Inr partDayLedger \<and> isValidRange partDayLedger
   \<and> remaining (last (days partDayLedger)) = 0 \<and> totalRemaining partDayLedger = - 300
   \<and> remaining (last (days partDayLedger)) \<noteq> totalRemaining partDayLedger
   \<and> parseISO apiaLib (startDate apiaPlan) = At 15337 0
   \<and> parseISO apiaLib (endDate apiaPlan) = At 15339 0
   \<and> calculations apiaLib apiaPlan clock = Inr apiaLedger \<and> isValidRange apiaLedger
   \<and> remaining (last (days apiaLedger)) = 0 \<and> totalRemaining apiaLedger = 100
   \<and> remaining (last (days apiaLedger)) \<noteq> totalRemaining apiaLedger"
proof -
  have part: "isValidRange partDayLedger" "remaining (last (days partDayLedger)) = 0"
      "totalRemaining partDayLedger = - 300"
      "remaining (last (days partDayLedger)) \<noteq> totalRemaining partDayLedger"
    by (simp_all add: partDayLedger_def)
  have parse: "parseISO apiaLib (startDate apiaPlan) = At 15337 0"
      "parseISO apiaLib (endDate apiaPlan) = At 15339 0"
    by (simp_all add: apiaPlan_def apiaLib_sel parseISO_local_values)
  have apia: "isValidRange apiaLedger" "remaining (last (days apiaLedger)) = 0"
      "totalRemaining apiaLedger = 100"
      "remaining (last (days apiaLedger)) \<noteq> totalRemaining apiaLedger"
    by (simp_all add: apiaLedger_def)
  show ?thesis
    by (intro conjI partDayPlan_ledger part parse apiaPlan_ledger apia)
qed

lemma ledger_percentage:
  assumes "calculations lib st now = Inr L"
  shows "spentPercentage L
           = (if 0 < available L then min 100 (totalSpent L / available L * 100) else 0)"
    and "available L = 0 \<Longrightarrow> dailyAllowance L = 0"
proof -
  let ?bad = "\<not> isValid (parseISO lib (startDate st)) \<or> \<not> isValid (parseISO lib (endDate st))
           \<or> date_gt (parseISO lib (startDate st)) (parseISO lib (endDate st))"
  have both: "spentPercentage L
           = (if 0 < available L then min 100 (totalSpent L / available L * 100) else 0)
      \<and> (available L = 0 \<longrightarrow> dailyAllowance L = 0)"
  proof (cases ?bad)
    case True
    from calculations_invalid [OF this, of now] assms show ?thesis by auto
  next
    case False
    then obtain sd stt ed et where "parseISO lib (startDate st) = At sd stt"
        "parseISO lib (endDate st) = At ed et" "\<not> date_gt (At sd stt) (At ed et)"
      by (cases "parseISO lib (startDate st)"; cases "parseISO lib (endDate st)") auto
    from calculations_valid [OF this] assms show ?thesis by auto
  qed
  from both show "spentPercentage L
           = (if 0 < available L then min 100 (totalSpent L / available L * 100) else 0)"
    by blast
  from both show "available L = 0 \<Longrightarrow> dailyAllowance L = 0"
    by blast
qed

text \<open>
  C3. \<open>calculations\<close> returns a ledger for every input, it never throws. When a date is
  invalid or the end is before the start, the ledger is the degenerate one: \<open>daysCount\<close> 0,
  \<open>dailyAllowance\<close> 0, no days, \<open>isValidRange\<close> false, \<open>available\<close> as computed, \<open>totalSpent\<close>
  and \<open>spentPercentage\<close> 0, \<open>totalRemaining\<close> equal to \<open>available\<close>; and it has no
  \<open>spentUpToToday\<close> at all, neither zero nor any other number.
\<close>

theorem invalid_range_ledger:
  "(\<exists>L. calculations lib st now = Inr L)
   \<and> (\<not> isValid (parseISO lib (startDate st)) \<or> \<not> isValid (parseISO lib (endDate st))
        \<or> date_gt (parseISO lib (startDate st)) (parseISO lib (endDate st))
       \<longrightarrow> calculations lib st now =
             Inr \<lparr>daysCount = 0,
                  available = max 0 (orZero (parseFloat lib (totalAmount st))
                                     - totalSavings lib (savingsGoals st)),
                  dailyAllowance = 0, days = [], isValidRange = False, totalSpent = 0,
                  totalRemaining = max 0 (orZero (parseFloat lib (totalAmount st))
                                          - totalSavings lib (savingsGoals st)),
                  spentPercentage = 0, spentUpToToday = None\<rparr>)"
  using calculations_total [of lib st now] calculations_invalid [of lib st now]
  by (simp add: availableOf_def)

theorem invalid_range_ledger_witness:
  "date_gt (parseISO jslib (startDate reversedPlan)) (parseISO jslib (endDate reversedPlan))
   \<and> calculations jslib reversedPlan clock = Inr reversedLedger
   \<and> daysCount reversedLedger = 0 \<and> days reversedLedger = []
   \<and> totalSpent reversedLedger = 0 \<and> spentPercentage reversedLedger = 0
   \<and> totalRemaining reversedLedger = available reversedLedger
   \<and> spentUpToToday reversedLedger = None"
proof -
  have bad: "date_gt (parseISO jslib (startDate reversedPlan))
      (parseISO jslib (endDate reversedPlan))"
    by (simp add: reversedPlan_def jslib_sel parseISO_local_values)
  have avail: "max 0 (orZero (parseFloat jslib (totalAmount reversedPlan))
      - totalSavings jslib (savingsGoals reversedPlan)) = 800"
    by (simp add: reversedPlan_def jslib_sel parseFloat_dec_values orZero_def totalSavings_def)
  from invalid_range_ledger [of jslib reversedPlan clock] bad
  have run: "calculations jslib reversedPlan clock = Inr reversedLedger"
    by (simp add: avail reversedLedger_def)
  have fields: "daysCount reversedLedger = 0" "days reversedLedger = []"
      "totalSpent reversedLedger = 0" "spentPercentage reversedLedger = 0"
      "totalRemaining reversedLedger = available reversedLedger"
      "spentUpToToday reversedLedger = None"
    by (simp_all add: reversedLedger_def)
  show ?thesis
    by (intro conjI bad run fields)
qed

text \<open>
  C5. A total amount or a goal amount in which \<^verbatim>\<open>parseFloat\<close> reads no number counts as 0,
  and no error is raised: total savings is the sum of the numbers read from the goal
  amounts, with 0 for a text that gives none, and \<open>available\<close> is computed from the number
  read from the total amount, or from 0. A negative number is kept with its sign. A
  negative total amount gives the same \<open>available\<close> as 0 does, namely 0, when total
  savings is not negative.
\<close>

theorem unreadable_amounts_count_as_zero:
  "totalSavings lib goals
     = sum_list (map (\<lambda>g. case parseFloat lib (amount g) of None \<Rightarrow> 0 | Some v \<Rightarrow> v) goals)
   \<and> (\<exists>L. calculations lib st now = Inr L
         \<and> available L
             = max 0 ((case parseFloat lib (totalAmount st) of None \<Rightarrow> 0 | Some v \<Rightarrow> v)
                      - totalSavings lib (savingsGoals st))
         \<and> ((case parseFloat lib (totalAmount st) of None \<Rightarrow> 0 | Some v \<Rightarrow> v) < 0
              \<and> 0 \<le> totalSavings lib (savingsGoals st)
             \<longrightarrow> available L = 0
                 \<and> available L = max 0 (0 - totalSavings lib (savingsGoals st))))"
proof -
  have sum: "totalSavings lib goals
     = sum_list (map (\<lambda>g. case parseFloat lib (amount g) of None \<Rightarrow> 0 | Some v \<Rightarrow> v) goals)"
    by (simp add: totalSavings_sum orZero_eq)
  from calculations_total obtain L where L: "calculations lib st now = Inr L"
    by blast
  have avail: "available L
             = max 0 ((case parseFloat lib (totalAmount st) of None \<Rightarrow> 0 | Some v \<Rightarrow> v)
                      - totalSavings lib (savingsGoals st))"
    by (simp add: available_eq [OF L] availableOf_def orZero_eq)
  have neg: "available L = 0 \<and> available L = max 0 (0 - totalSavings lib (savingsGoals st))"
    if "(case parseFloat lib (totalAmount st) of None \<Rightarrow> 0 | Some v \<Rightarrow> v) < 0"
      and "0 \<le> totalSavings lib (savingsGoals st)"
    using that unfolding avail by simp
  from sum L avail neg show ?thesis by blast
qed

theorem unreadable_amounts_count_as_zero_witness:
  "parseFloat jslib (totalAmount blankPlan) = None
   \<and> totalSavings jslib (savingsGoals blankPlan) = 0
   \<and> (\<exists>L. calculations jslib blankPlan clock = Inr L \<and> available L = 0)
   \<and> parseFloat jslib (totalAmount negativeTotalPlan) = Some (- 100)
   \<and> totalSavings jslib (savingsGoals negativeTotalPlan) = 200
   \<and> calculations jslib negativeTotalPlan clock = Inr negativeTotalLedger
   \<and> available negativeTotalLedger = 0"
proof -
  have blank: "parseFloat jslib (totalAmount blankPlan) = None"
      "map (\<lambda>g. parseFloat jslib (amount g)) (savingsGoals blankPlan) = [None]"
    by (simp_all add: blankPlan_def jslib_sel parseFloat_dec_values)
  note b = unreadable_amounts_count_as_zero [of jslib "savingsGoals blankPlan" blankPlan clock]
  from b have "totalSavings jslib (savingsGoals blankPlan)
      = sum_list (map (\<lambda>g. case parseFloat jslib (amount g) of None \<Rightarrow> 0 | Some v \<Rightarrow> v)
          (savingsGoals blankPlan))"
    by blast
  also have "\<dots> = 0"
    by (simp add: blankPlan_def jslib_sel parseFloat_dec_values)
  finally have bsum: "totalSavings jslib (savingsGoals blankPlan) = 0" .
  from b have bav: "\<exists>L. calculations jslib blankPlan clock = Inr L \<and> available L = 0"
    by (auto simp: blank(1) bsum)
  have negt: "parseFloat jslib (totalAmount negativeTotalPlan) = Some (- 100)"
    by (simp add: negativeTotalPlan_def jslib_sel parseFloat_dec_values)
  note n = unreadable_amounts_count_as_zero
    [of jslib "savingsGoals negativeTotalPlan" negativeTotalPlan clock]
  from n have "totalSavings jslib (savingsGoals negativeTotalPlan)
      = sum_list (map (\<lambda>g. case parseFloat jslib (amount g) of None \<Rightarrow> 0 | Some v \<Rightarrow> v)
          (savingsGoals negativeTotalPlan))"
    by blast
  also have "\<dots> = 200"
    by (simp add: negativeTotalPlan_def jslib_sel parseFloat_dec_values)
  finally have nsum: "totalSavings jslib (savingsGoals negativeTotalPlan) = 200" .
  from n have nav: "available negativeTotalLedger = 0"
    by (auto simp: negativeTotalPlan_ledger negt nsum)
  show ?thesis
    by (intro conjI blank(1) bsum bav negt nsum negativeTotalPlan_ledger nav)
qed

text \<open>
  A goal amount of \<^verbatim>\<open>-50\<close> does not contribute 0 to total savings: total savings is \<open>- 50\<close>,
  and with a total amount of 100 the planner makes 150 available, not 100. Nor does a
  negative total amount count as 0 beside a negative goal amount: \<^verbatim>\<open>-100\<close> with a goal of
  \<^verbatim>\<open>-300\<close> makes 200 available, where a total of 0 would make 300.
\<close>

theorem negative_goal_amount_counterexample:
  "amount (hd (savingsGoals negativeGoalPlan)) = ''-50''
   \<and> totalAmount negativeGoalPlan = ''100''
   \<and> totalSavings jslib (savingsGoals negativeGoalPlan) = - 50
   \<and> totalSavings jslib (savingsGoals negativeGoalPlan) \<noteq> 0
   \<and> calculations jslib negativeGoalPlan clock = Inr negativeGoalLedger
   \<and> available negativeGoalLedger = 150
   \<and> available negativeGoalLedger \<noteq> max 0 (100 - 0)
   \<and> totalAmount negativeBothPlan = ''-100''
   \<and> totalSavings jslib (savingsGoals negativeBothPlan) = - 300
   \<and> calculations jslib negativeBothPlan clock = Inr negativeBothLedger
   \<and> available negativeBothLedger = 200
   \<and> available negativeBothLedger
       \<noteq> max 0 (0 - totalSavings jslib (savingsGoals negativeBothPlan))"
proof -
  have amt: "amount (hd (savingsGoals negativeGoalPlan)) = ''-50''"
      "totalAmount negativeGoalPlan = ''100''"
    by (simp_all add: negativeGoalPlan_def)
  have sav: "totalSavings jslib (savingsGoals negativeGoalPlan) = - 50"
    by (simp add: negativeGoalPlan_def totalSavings_def orZero_def jslib_sel
        parseFloat_dec_values)
  have nz: "totalSavings jslib (savingsGoals negativeGoalPlan) \<noteq> 0"
    unfolding sav by simp
  have av: "available negativeGoalLedger = 150"
    by (simp add: negativeGoalLedger_def)
  have ne: "available negativeGoalLedger \<noteq> max 0 (100 - 0)"
    unfolding av by simp
  have amt2: "totalAmount negativeBothPlan = ''-100''"
    by (simp add: negativeBothPlan_def)
  have sav2: "totalSavings jslib (savingsGoals negativeBothPlan) = - 300"
    by (simp add: negativeBothPlan_def totalSavings_def orZero_def jslib_sel
        parseFloat_dec_values)
  have av2: "available negativeBothLedger = 200"
    by (simp add: negativeBothLedger_def)
  have ne2: "available negativeBothLedger
      \<noteq> max 0 (0 - totalSavings jslib (savingsGoals negativeBothPlan))"
    unfolding av2 sav2 by simp
  show ?thesis
    by (intro conjI amt sav nz negativeGoalPlan_ledger av ne amt2 sav2
        negativeBothPlan_ledger av2 ne2)
qed

text \<open>
  C6. For every input \<open>calculations\<close> returns a ledger without dividing by zero;
  \<open>available\<close> is never negative; \<open>spentPercentage\<close> is
  \<open>min 100 (totalSpent / available * 100)\<close> when \<open>available\<close> is positive and 0 when it is 0.
  When the total amount is 0 and total savings is not negative, \<open>available\<close>,
  \<open>dailyAllowance\<close> and \<open>spentPercentage\<close> are all 0.
\<close>

theorem spent_percentage_guarded:
  "\<exists>L. calculations lib st now = Inr L \<and> 0 \<le> available L
      \<and> spentPercentage L
          = (if 0 < available L then min 100 (totalSpent L / available L * 100) else 0)
      \<and> (available L = 0 \<longrightarrow> spentPercentage L = 0)
      \<and> (orZero (parseFloat lib (totalAmount st)) = 0
           \<and> 0 \<le> totalSavings lib (savingsGoals st)
          \<longrightarrow> available L = 0 \<and> dailyAllowance L = 0 \<and> spentPercentage L = 0)"
proof -
  from calculations_total obtain L where L: "calculations lib st now = Inr L"
    by blast
  note av = available_eq [OF L]
  note pc = ledger_percentage [OF L]
  have nonneg: "0 \<le> available L"
    by (simp add: av availableOf_nonneg)
  have zero: "spentPercentage L = 0" if "available L = 0"
    using that pc(1) by simp
  have scen: "available L = 0 \<and> dailyAllowance L = 0 \<and> spentPercentage L = 0"
    if "orZero (parseFloat lib (totalAmount st)) = 0"
      and "0 \<le> totalSavings lib (savingsGoals st)"
  proof -
    from that have "available L = 0"
      by (simp add: av availableOf_def)
    with pc(2) zero show ?thesis by blast
  qed
  from L nonneg pc(1) zero scen show ?thesis by blast
qed

theorem spent_percentage_guarded_witness:
  "orZero (parseFloat jslib (totalAmount zeroTotalPlan)) = 0
   \<and> 0 \<le> totalSavings jslib (savingsGoals zeroTotalPlan)
   \<and> calculations jslib zeroTotalPlan clock = Inr zeroTotalLedger
   \<and> available zeroTotalLedger = 0 \<and> dailyAllowance zeroTotalLedger = 0
   \<and> spentPercentage zeroTotalLedger = 0
   \<and> calculations jslib marchPlan clock = Inr marchLedger
   \<and> spentPercentage marchLedger
       = (if 0 < available marchLedger
          then min 100 (totalSpent marchLedger / available marchLedger * 100) else 0)
   \<and> spentPercentage marchLedger = 80"
proof -
  have tot: "orZero (parseFloat jslib (totalAmount zeroTotalPlan)) = 0"
    by (simp add: zeroTotalPlan_def jslib_sel parseFloat_dec_values orZero_def)
  have sav: "0 \<le> totalSavings jslib (savingsGoals zeroTotalPlan)"
    by (simp add: zeroTotalPlan_def jslib_sel parseFloat_dec_values orZero_def
        totalSavings_def)
  from spent_percentage_guarded [of jslib zeroTotalPlan clock] tot sav
  have z: "available zeroTotalLedger = 0" "dailyAllowance zeroTotalLedger = 0"
      "spentPercentage zeroTotalLedger = 0"
    by (auto simp: zeroTotalPlan_ledger)
  from spent_percentage_guarded [of jslib marchPlan clock]
  have m: "spentPercentage marchLedger
       = (if 0 < available marchLedger
          then min 100 (totalSpent marchLedger / available marchLedger * 100) else 0)"
    by (auto simp: marchPlan_ledger)
  have val: "spentPercentage marchLedger = 80" by (simp add: marchLedger_def)
  show ?thesis
    by (intro conjI tot sav zeroTotalPlan_ledger z marchPlan_ledger m val)
qed

text \<open>
  With a total amount of \<^verbatim>\<open>0\<close> and a goal amount of \<^verbatim>\<open>-50\<close> over a single day, \<open>available\<close>
  and \<open>dailyAllowance\<close> are 50 and \<open>spentPercentage\<close> is 100, none of them 0.
\<close>

theorem zero_total_counterexample:
  "totalAmount zeroTotalNegativeGoalPlan = ''0''
   \<and> orZero (parseFloat jslib (totalAmount zeroTotalNegativeGoalPlan)) = 0
   \<and> calculations jslib zeroTotalNegativeGoalPlan clock = Inr zeroTotalNegativeGoalLedger
   \<and> available zeroTotalNegativeGoalLedger = 50
   \<and> dailyAllowance zeroTotalNegativeGoalLedger = 50
   \<and> spentPercentage zeroTotalNegativeGoalLedger = 100"
proof -
  have tot: "totalAmount zeroTotalNegativeGoalPlan = ''0''"
      "orZero (parseFloat jslib (totalAmount zeroTotalNegativeGoalPlan)) = 0"
    by (simp_all add: zeroTotalNegativeGoalPlan_def jslib_sel parseFloat_dec_values orZero_def)
  have vals: "available zeroTotalNegativeGoalLedger = 50"
      "dailyAllowance zeroTotalNegativeGoalLedger = 50"
      "spentPercentage zeroTotalNegativeGoalLedger = 100"
    by (simp_all add: zeroTotalNegativeGoalLedger_def)
  show ?thesis
    by (intro conjI tot zeroTotalNegativeGoalPlan_ledger vals)
qed

end
